theory Spec2Isabelle
  imports Complex_Main "HOL-Library.Char_ord" "HOL-Library.List_Lexorder"
begin

section \<open>Dates, instants and time zones\<close>

text \<open>
  A Python \<open>date\<close> is represented by its proleptic Gregorian ordinal
  (\<open>date.toordinal()\<close>); the order of dates is the order of their ordinals.
  An aware UTC \<open>datetime\<close> is the number of seconds since the midnight that starts
  ordinal 0, so that \<open>datetime.combine(d, time(h, m))\<close> read in UTC is
  \<open>d * 86400 + h * 3600 + m * 60\<close>, and \<open>timedelta(minutes=n)\<close> is \<open>60 * n\<close>.
\<close>

type_synonym date = int
type_synonym instant = int

text \<open>
  The time zone database of \<open>pytz\<close> is not part of the repository; it is a parameter.
  A zone gives the UTC offset (in seconds) that \<open>tz.localize\<close> attaches to a naive local
  time, and the offset in force at a UTC instant, which \<open>astimezone\<close> uses.
  \<open>tz.localize\<close> of a zone with clock changes looks a day back and a day ahead of the
  local time and raises \<open>OverflowError\<close> when that leaves the range of \<open>datetime\<close>:
  \<open>None\<close>. \<open>pytz.timezone\<close> raises for a name the database does not have: \<open>None\<close>.
\<close>

record tzinfo =
  localize_utcoffset :: "int \<Rightarrow> int option"
  utcoffset_at :: "instant \<Rightarrow> int"

type_synonym tzdb = "string \<Rightarrow> tzinfo option"

datatype error = ValueError | OverflowError

text \<open>
  A \<open>datetime\<close> lies between \<open>datetime.min\<close>, the midnight that starts ordinal 1
  (0001-01-01), and \<open>datetime.max\<close>, the last instant of ordinal 3652059 (9999-12-31).
  Arithmetic that leaves this range raises \<open>OverflowError\<close>.
\<close>

definition datetime_in_range :: "int \<Rightarrow> bool" where
  "datetime_in_range t = (86400 \<le> t \<and> t < 3652060 * 86400)"

text \<open>The ordinals of the values of \<open>date\<close>, from \<open>date.min\<close> to \<open>date.max\<close>.\<close>

definition is_date :: "date \<Rightarrow> bool" where
  "is_date d = (1 \<le> d \<and> d \<le> 3652059)"

text \<open>
  \<open>timedelta(minutes=m)\<close>, in seconds: the number of whole days of a \<open>timedelta\<close> has
  magnitude at most 999999999, otherwise the constructor raises \<open>OverflowError\<close>.
\<close>

definition timedelta_minutes :: "int \<Rightarrow> error + int" where
  "timedelta_minutes m =
     (if - 999999999 \<le> (60 * m) div 86400 \<and> (60 * m) div 86400 \<le> 999999999
      then Inr (60 * m) else Inl OverflowError)"

text \<open>\<open>t + timedelta(minutes=m)\<close> for a \<open>datetime\<close> \<open>t\<close>.\<close>

definition plus_minutes :: "instant \<Rightarrow> int \<Rightarrow> error + instant" where
  "plus_minutes t m =
     (case timedelta_minutes m of
        Inl err \<Rightarrow> Inl err
      | Inr delta \<Rightarrow>
          if datetime_in_range (t + delta) then Inr (t + delta) else Inl OverflowError)"

text \<open>What a call does: it returns, it raises, or it never returns.\<close>

datatype 'a outcome = Return 'a | Raise error | Diverge

subsection \<open>Parsing and printing a time of day\<close>

definition is_digit :: "char \<Rightarrow> bool" where
  "is_digit c = (c \<in> set ''0123456789'')"

definition digit_val :: "char \<Rightarrow> nat" where
  "digit_val c = of_char c - 48"

definition is_space :: "char \<Rightarrow> bool" where
  "is_space c = (c \<in> set [CHR '' '', CHR 0x09, CHR 0x0A, CHR 0x0B, CHR 0x0C, CHR 0x0D])"

definition strip :: "string \<Rightarrow> string" where
  "strip s = rev (dropWhile is_space (rev (dropWhile is_space s)))"

text \<open>
  The digits of an integer literal as \<open>int()\<close> reads them: decimal digits, with single
  underscores allowed between digits. The flag says whether the previous character was a
  digit.
\<close>

fun digits_val :: "bool \<Rightarrow> nat \<Rightarrow> string \<Rightarrow> nat option" where
  "digits_val prev acc [] = (if prev then Some acc else None)"
| "digits_val prev acc (c # cs) =
     (if is_digit c then digits_val True (10 * acc + digit_val c) cs
      else if c = CHR ''_'' \<and> prev \<and> cs \<noteq> [] then digits_val False acc cs
      else None)"

text \<open>\<open>int(s)\<close> on an ASCII string: surrounding white space, an optional sign, digits.\<close>

definition py_int :: "string \<Rightarrow> int option" where
  "py_int s =
     (case strip s of
        [] \<Rightarrow> None
      | c # cs \<Rightarrow>
          if c = CHR ''-'' then map_option (\<lambda>n. - int n) (digits_val False 0 cs)
          else if c = CHR ''+'' then map_option int (digits_val False 0 cs)
          else map_option int (digits_val False 0 (c # cs)))"

text \<open>\<open>s.split(':')\<close>: the pieces between the colons, at least one piece.\<close>

fun split_colon :: "string \<Rightarrow> string list" where
  "split_colon [] = [[]]"
| "split_colon (c # cs) =
     (if c = CHR '':'' then [] # split_colon cs
      else (case split_colon cs of p # ps \<Rightarrow> (c # p) # ps | [] \<Rightarrow> [[c]]))"

text \<open>
  \<open>hour, minute = map(int, local_time.split(':'))\<close> followed by \<open>time(hour, minute)\<close>:
  exactly two pieces, both integers, the hour in 0..23 and the minute in 0..59; anything
  else raises.
\<close>

definition parse_time :: "string \<Rightarrow> (int \<times> int) option" where
  "parse_time local_time =
     (case split_colon local_time of
        [a, b] \<Rightarrow>
          (case py_int a of
             None \<Rightarrow> None
           | Some hour \<Rightarrow>
               (case py_int b of
                  None \<Rightarrow> None
                | Some minute \<Rightarrow>
                    if 0 \<le> hour \<and> hour \<le> 23 \<and> 0 \<le> minute \<and> minute \<le> 59
                    then Some (hour, minute) else None))
      | _ \<Rightarrow> None)"

definition digit_char :: "nat \<Rightarrow> char" where
  "digit_char n = ''0123456789'' ! n"

text \<open>A number below 100 printed with two digits, as \<open>%H\<close> and \<open>%M\<close> print.\<close>

definition two_digits :: "int \<Rightarrow> string" where
  "two_digits n = [digit_char (nat n div 10), digit_char (nat n mod 10)]"

subsection \<open>convert_to_utc, convert_from_utc\<close>

text \<open>
  Every exception inside \<open>convert_to_utc\<close> is caught and raised again as \<open>ValueError\<close>:
  an unknown zone, a string that is not a time, \<open>tz.localize\<close> raising, and
  \<open>astimezone(pytz.UTC)\<close> raising \<open>OverflowError\<close> because the local time minus its
  offset is not a \<open>datetime\<close>.
\<close>

definition convert_to_utc :: "tzdb \<Rightarrow> string \<Rightarrow> date \<Rightarrow> string \<Rightarrow> error + instant" where
  "convert_to_utc db local_time date_obj timezone_str =
     (case db timezone_str of
        None \<Rightarrow> Inl ValueError
      | Some tz \<Rightarrow>
          (case parse_time local_time of
             None \<Rightarrow> Inl ValueError
           | Some (hour, minute) \<Rightarrow>
               (let local_datetime = date_obj * 86400 + hour * 3600 + minute * 60
                in case localize_utcoffset tz local_datetime of
                     None \<Rightarrow> Inl ValueError
                   | Some offset \<Rightarrow>
                       if datetime_in_range (local_datetime - offset)
                       then Inr (local_datetime - offset)
                       else Inl ValueError)))"

text \<open>
  In \<open>convert_from_utc\<close>, \<open>astimezone(tz)\<close> adds the zone's offset to the UTC time and
  raises \<open>OverflowError\<close> when the sum is not a \<open>datetime\<close>; it is raised again as
  \<open>ValueError\<close>.
\<close>

definition convert_from_utc :: "tzdb \<Rightarrow> instant \<Rightarrow> string \<Rightarrow> error + string" where
  "convert_from_utc db utc_datetime timezone_str =
     (case db timezone_str of
        None \<Rightarrow> Inl ValueError
      | Some tz \<Rightarrow>
          (let local_dt = utc_datetime + utcoffset_at tz utc_datetime
           in if datetime_in_range local_dt
              then Inr (two_digits (local_dt div 3600 mod 24) @ '':'' @
                        two_digits (local_dt div 60 mod 60))
              else Inl ValueError))"

subsection \<open>The input format of a time of day\<close>

text \<open>
  The pattern \<open>^([01]?[0-9]|2[0-3]):[0-5][0-9]$\<close> of the fields \<open>start_time\<close> and
  \<open>end_time\<close>: an hour of one digit, or of two digits from 00 to 23, a colon, and a minute
  from 00 to 59.
\<close>

definition hour_digits :: "char \<Rightarrow> char \<Rightarrow> bool" where
  "hour_digits a b =
     (((a = CHR ''0'' \<or> a = CHR ''1'') \<and> is_digit b) \<or>
      (a = CHR ''2'' \<and> b \<in> set ''0123''))"

definition minute_digits :: "char \<Rightarrow> char \<Rightarrow> bool" where
  "minute_digits c d = (c \<in> set ''012345'' \<and> is_digit d)"

definition matches_time_pattern :: "string \<Rightarrow> bool" where
  "matches_time_pattern s =
     (case s of
        [a, b, colon, c, d] \<Rightarrow> hour_digits a b \<and> colon = CHR '':'' \<and> minute_digits c d
      | [b, colon, c, d] \<Rightarrow> is_digit b \<and> colon = CHR '':'' \<and> minute_digits c d
      | _ \<Rightarrow> False)"

text \<open>The strings of the fixed-width form HH:MM, with two digits for the hour.\<close>

definition is_hhmm :: "string \<Rightarrow> bool" where
  "is_hhmm s =
     (case s of
        [a, b, colon, c, d] \<Rightarrow> hour_digits a b \<and> colon = CHR '':'' \<and> minute_digits c d
      | _ \<Rightarrow> False)"

text \<open>
  The validator \<open>validate_end_time\<close> of \<open>ProviderAvailabilityCreate\<close>: the strings are
  compared as strings, character by character.
\<close>

definition validate_end_time :: "string \<Rightarrow> string \<Rightarrow> error + string" where
  "validate_end_time v start_time' = (if v \<le> start_time' then Inl ValueError else Inr v)"

text \<open>
  A local time is on the zone's clocks when the offset that \<open>localize\<close> attaches to it is
  the offset in force at the instant it then denotes. The times that the clocks skip when
  they go forward are not.
\<close>

definition on_the_clock :: "tzinfo \<Rightarrow> int \<Rightarrow> bool" where
  "on_the_clock tz local =
     (case localize_utcoffset tz local of
        None \<Rightarrow> False
      | Some offset \<Rightarrow> utcoffset_at tz (local - offset) = offset)"

section \<open>Data model\<close>

datatype RecurrencePattern = DAILY | WEEKLY | MONTHLY

datatype AvailabilityStatus = AVAILABLE | BOOKED | CANCELLED | BLOCKED | MAINTENANCE

datatype AppointmentType = CONSULTATION | FOLLOW_UP | EMERGENCY | TELEMEDICINE

datatype LocationType = CLINIC | HOSPITAL | TELEMEDICINE_LOCATION | HOME_VISIT

text \<open>The enumerations are string enumerations; \<open>.value\<close> is the string.\<close>

fun recurrence_value :: "RecurrencePattern \<Rightarrow> string" where
  "recurrence_value DAILY = ''daily''"
| "recurrence_value WEEKLY = ''weekly''"
| "recurrence_value MONTHLY = ''monthly''"

fun status_value :: "AvailabilityStatus \<Rightarrow> string" where
  "status_value AVAILABLE = ''available''"
| "status_value BOOKED = ''booked''"
| "status_value CANCELLED = ''cancelled''"
| "status_value BLOCKED = ''blocked''"
| "status_value MAINTENANCE = ''maintenance''"

fun appointment_type_value :: "AppointmentType \<Rightarrow> string" where
  "appointment_type_value CONSULTATION = ''consultation''"
| "appointment_type_value FOLLOW_UP = ''follow_up''"
| "appointment_type_value EMERGENCY = ''emergency''"
| "appointment_type_value TELEMEDICINE = ''telemedicine''"

record Location =
  location_type :: LocationType
  address :: "string option"
  room_number :: "string option"

text \<open>The fee is a float in the source; only its comparison with a bound is used.\<close>

record Pricing =
  base_fee :: rat
  insurance_accepted :: bool
  currency :: string

text \<open>
  \<open>ProviderAvailabilityCreate\<close>, and \<open>ProviderAvailabilityDB\<close> as its extension by the
  fields the stored window adds (\<open>db_id\<close> is its \<open>id\<close>; \<open>notes'\<close> is \<open>notes\<close>). The stored window's
  \<open>special_requirements\<close> is always a list: \<open>Some\<close> of it here.
\<close>

record ProviderAvailabilityCreate =
  provider_id :: string
  date :: date
  start_time :: string
  end_time :: string
  timezone :: string
  is_recurring :: bool
  recurrence_pattern :: "RecurrencePattern option"
  recurrence_end_date :: "date option"
  slot_duration :: int
  break_duration :: int
  status :: AvailabilityStatus
  max_appointments_per_slot :: int
  appointment_type :: AppointmentType
  location :: Location
  pricing :: "Pricing option"
  notes' :: "string option"
  special_requirements :: "string list option"

record ProviderAvailabilityDB = ProviderAvailabilityCreate +
  db_id :: string
  current_appointments :: int
  created_at :: instant
  updated_at :: instant

text \<open>
  A stored appointment slot is a dictionary: the key \<open>k\<close> is the field \<open>s_k\<close>. The first
  eleven are the fields of \<open>AppointmentSlot\<close>; the last five are the keys that only an update
  adds, \<open>None\<close> while the key is absent.
\<close>

record AppointmentSlot =
  s_id :: string
  s_availability_id :: string
  s_provider_id :: string
  s_slot_start_time :: instant
  s_slot_end_time :: instant
  s_status :: string
  s_patient_id :: "string option"
  s_appointment_type :: string
  s_booking_reference :: "string option"
  s_created_at :: instant
  s_updated_at :: "instant option"
  s_start_time :: "string option"
  s_end_time :: "string option"
  s_notes :: "string option"
  s_pricing :: "Pricing option"
  s_special_requirements :: "string list option"

text \<open>
  What the functions take from outside: the time zone database, the identifiers that
  \<open>uuid.uuid4()\<close> hands out (the n-th call gives \<open>uuid4 env n\<close>) and the clock.
\<close>

record env =
  tz_database :: tzdb
  uuid4 :: "nat \<Rightarrow> string"
  utcnow :: instant

section \<open>Slot generator\<close>

definition new_slot :: "env \<Rightarrow> nat \<Rightarrow> ProviderAvailabilityDB \<Rightarrow> instant \<Rightarrow> instant \<Rightarrow> AppointmentSlot" where
  "new_slot e n availability current_time slot_end_time =
     \<lparr> s_id = uuid4 e n,
       s_availability_id = db_id availability,
       s_provider_id = provider_id availability,
       s_slot_start_time = current_time,
       s_slot_end_time = slot_end_time,
       s_status = status_value AVAILABLE,
       s_patient_id = None,
       s_appointment_type = appointment_type_value (appointment_type availability),
       s_booking_reference = None,
       s_created_at = utcnow e,
       s_updated_at = Some (utcnow e),
       s_start_time = None, s_end_time = None, s_notes = None, s_pricing = None,
       s_special_requirements = None \<rparr>"

lemma plus_minutes_Inr:
  "plus_minutes t m = Inr x \<Longrightarrow> x = t + 60 * m \<and> datetime_in_range x"
  by (auto simp: plus_minutes_def timedelta_minutes_def split: if_splits)

text \<open>
  The \<open>while\<close> loop of \<open>generate_slots_from_availability\<close>, with \<open>n\<close> the number of
  identifiers handed out so far. The end of the slot,
  \<open>current_time + timedelta(minutes=slot_duration)\<close>, is computed before it is compared
  with the end of the window, and the next cursor,
  \<open>slot_end_time + timedelta(minutes=break_duration)\<close>, after the slot is appended: either
  sum raises \<open>OverflowError\<close> when it is not a \<open>datetime\<close>, and nothing catches it.
  When both sums exist and \<open>slot_duration + break_duration\<close> is zero, the cursor does not
  move and the source loops forever: \<open>Diverge\<close>. When it is negative the cursor moves
  back until a sum leaves the range.
\<close>

function slot_loop :: "env \<Rightarrow> ProviderAvailabilityDB \<Rightarrow> instant \<Rightarrow> instant \<Rightarrow> nat \<Rightarrow> AppointmentSlot list outcome" where
  "slot_loop e availability end_dt current_time n =
     (if current_time < end_dt then
        (case plus_minutes current_time (slot_duration availability) of
           Inl err \<Rightarrow> Raise err
         | Inr slot_end_time \<Rightarrow>
             if slot_end_time > end_dt then Return []
             else
               (case plus_minutes slot_end_time (break_duration availability) of
                  Inl err \<Rightarrow> Raise err
                | Inr next_time \<Rightarrow>
                    if slot_duration availability + break_duration availability = 0 then Diverge
                    else
                      (case slot_loop e availability end_dt next_time (Suc n) of
                         Return slots \<Rightarrow>
                           Return (new_slot e n availability current_time slot_end_time # slots)
                       | Raise err \<Rightarrow> Raise err
                       | Diverge \<Rightarrow> Diverge)))
      else Return [])"
  by pat_completeness auto
termination
proof (relation "measure (\<lambda>(e, availability, end_dt, current_time, n).
         if 0 < slot_duration availability + break_duration availability
         then nat (end_dt - current_time) else nat current_time)", goal_cases)
  case 1
  show ?case by simp
next
  case (2 e availability end_dt current_time n slot_end_time next_time)
  from plus_minutes_Inr[OF 2(2)] plus_minutes_Inr[OF 2(4)]
  have "next_time = current_time + 60 * (slot_duration availability + break_duration availability)"
    and "86400 \<le> next_time"
    by (simp_all add: datetime_in_range_def)
  with 2(1,5) show ?case by auto
qed

declare slot_loop.simps [simp del]

definition generate_slots_from_availability :: "env \<Rightarrow> nat \<Rightarrow> ProviderAvailabilityDB \<Rightarrow> AppointmentSlot list outcome" where
  "generate_slots_from_availability e n availability =
     (case convert_to_utc (tz_database e) (start_time availability) (date availability) (timezone availability) of
        Inl err \<Rightarrow> Raise err
      | Inr start_dt \<Rightarrow>
          (case convert_to_utc (tz_database e) (end_time availability) (date availability) (timezone availability) of
             Inl err \<Rightarrow> Raise err
           | Inr end_dt \<Rightarrow>
               slot_loop e availability end_dt start_dt n))"

section \<open>The calendar, and the zones and values used in examples\<close>

text \<open>
  The ordinal of the date \<open>date(y, m, d)\<close>, as Python's \<open>datetime\<close> module computes it
  (\<open>_ymd2ord\<close>): the days before the year, the days before the month, the day.
\<close>

definition is_leap :: "int \<Rightarrow> bool" where
  "is_leap y = (y mod 4 = 0 \<and> (y mod 100 \<noteq> 0 \<or> y mod 400 = 0))"

definition days_before_year :: "int \<Rightarrow> int" where
  "days_before_year y = (y - 1) * 365 + (y - 1) div 4 - (y - 1) div 100 + (y - 1) div 400"

definition days_before_month :: "int \<Rightarrow> int \<Rightarrow> int" where
  "days_before_month y m =
     [0, 31, 59, 90, 120, 151, 181, 212, 243, 273, 304, 334] ! nat (m - 1) +
     (if m > 2 \<and> is_leap y then 1 else 0)"

definition ymd2ord :: "int \<Rightarrow> int \<Rightarrow> int \<Rightarrow> date" where
  "ymd2ord y m d = days_before_year y + days_before_month y m + d"

text \<open>The zone \<open>UTC\<close>: the offset is zero.\<close>

definition utc_zone :: tzinfo where
  "utc_zone = \<lparr> localize_utcoffset = (\<lambda>local. Some 0), utcoffset_at = (\<lambda>utc. 0) \<rparr>"

text \<open>The zone \<open>Etc/GMT+5\<close>: five hours behind UTC all year, with no clock change.\<close>

definition gmt_plus_5 :: tzinfo where
  "gmt_plus_5 =
     \<lparr> localize_utcoffset = (\<lambda>local. Some (- 18000)), utcoffset_at = (\<lambda>utc. - 18000) \<rparr>"

text \<open>
  The zone \<open>America/New_York\<close> as the time zone database has it between November 2023 and
  March 2025: five hours behind UTC, four hours behind from 2024-03-10 07:00 UTC to
  2024-11-03 06:00 UTC. \<open>localize\<close> is called without \<open>is_dst\<close>, so a local time that the
  clocks skip (02:00 to 03:00 on 2024-03-10) or show twice (01:00 to 02:00 on 2024-11-03)
  gets the standard offset.
\<close>

definition new_york :: tzinfo where
  "new_york =
     \<lparr> localize_utcoffset = (\<lambda>local.
         if \<not> datetime_in_range (local - 86400) \<or> \<not> datetime_in_range (local + 86400) then None
         else if local < ymd2ord 2024 3 10 * 86400 + 3 * 3600 then Some (- 18000)
         else if local < ymd2ord 2024 11 3 * 86400 + 3600 then Some (- 14400)
         else Some (- 18000)),
       utcoffset_at = (\<lambda>utc.
         if utc < ymd2ord 2024 3 10 * 86400 + 7 * 3600 then - 18000
         else if utc < ymd2ord 2024 11 3 * 86400 + 6 * 3600 then - 14400
         else - 18000) \<rparr>"

definition example_tzdb :: tzdb where
  "example_tzdb name =
     (if name = ''UTC'' then Some utc_zone
      else if name = ''America/New_York'' then Some new_york
      else if name = ''Etc/GMT+5'' then Some gmt_plus_5
      else None)"

definition example_env :: env where
  "example_env =
     \<lparr> tz_database = example_tzdb,
       uuid4 = (\<lambda>n. ''uuid-'' @ replicate n (CHR ''x'')),
       utcnow = ymd2ord 2024 2 1 * 86400 \<rparr>"

text \<open>The window of the repository's slot generation test: 09:00 to 11:00 in New York.\<close>

definition example_window :: ProviderAvailabilityDB where
  "example_window =
     \<lparr> provider_id = ''test-provider-123'',
       date = ymd2ord 2024 2 15,
       start_time = ''09:00'',
       end_time = ''11:00'',
       timezone = ''America/New_York'',
       is_recurring = False,
       recurrence_pattern = None,
       recurrence_end_date = None,
       slot_duration = 30,
       break_duration = 0,
       status = AVAILABLE,
       max_appointments_per_slot = 1,
       appointment_type = CONSULTATION,
       location = \<lparr> location_type = CLINIC, address = Some ''123 Main St'', room_number = None \<rparr>,
       pricing = None,
       notes' = None,
       special_requirements = Some [],
       db_id = ''availability-1'',
       current_appointments = 0,
       created_at = ymd2ord 2024 2 1 * 86400,
       updated_at = ymd2ord 2024 2 1 * 86400 \<rparr>"

text \<open>
  A window on the day the clocks go forward in New York: 01:00 to 04:00 local time is three
  hours on the clock and two hours of elapsed time.
\<close>

definition spring_forward_window :: ProviderAvailabilityDB where
  "spring_forward_window =
     example_window \<lparr> date := ymd2ord 2024 3 10, start_time := ''01:00'', end_time := ''04:00'' \<rparr>"

section \<open>The store\<close>

text \<open>
  The two module-level lists of \<open>provider_availability_store\<close>, and the number of
  identifiers that \<open>uuid.uuid4()\<close> has handed out.
\<close>

record state =
  PROVIDER_AVAILABILITY :: "ProviderAvailabilityDB list"
  APPOINTMENT_SLOTS :: "AppointmentSlot list"
  uuids_used :: nat

text \<open>
  The truth value of an optional string argument, as \<open>if slot_id:\<close> tests it: \<open>None\<close>
  and the empty string are false.
\<close>

definition truthy :: "string option \<Rightarrow> bool" where
  "truthy x = (case x of None \<Rightarrow> False | Some s \<Rightarrow> s \<noteq> [])"

definition get_appointment_slots ::
  "AppointmentSlot list \<Rightarrow> string option \<Rightarrow> string option \<Rightarrow> string option \<Rightarrow> AppointmentSlot list" where
  "get_appointment_slots slots provider_id' availability_id slot_id =
     (if truthy slot_id then filter (\<lambda>slot. Some (s_id slot) = slot_id) slots
      else if truthy availability_id then
        filter (\<lambda>slot. Some (s_availability_id slot) = availability_id) slots
      else if truthy provider_id' then
        filter (\<lambda>slot. Some (s_provider_id slot) = provider_id') slots
      else slots)"

definition add_provider_availability ::
  "ProviderAvailabilityDB list \<Rightarrow> ProviderAvailabilityDB \<Rightarrow> ProviderAvailabilityDB list" where
  "add_provider_availability avs availability = avs @ [availability]"

definition add_appointment_slot :: "AppointmentSlot list \<Rightarrow> AppointmentSlot \<Rightarrow> AppointmentSlot list" where
  "add_appointment_slot slots slot = slots @ [slot]"

text \<open>
  The dictionary \<open>update_data\<close> that an update passes to the store: \<open>None\<close> is a key that
  is absent.
\<close>

record update_data =
  data_start_time :: "string option"
  data_end_time :: "string option"
  data_status :: "string option"
  data_notes :: "string option"
  data_pricing :: "Pricing option"
  data_special_requirements :: "string list option"
  data_updated_at :: "instant option"

definition or_keep :: "'a option \<Rightarrow> 'a option \<Rightarrow> 'a option" where
  "or_keep new old = (case new of None \<Rightarrow> old | Some v \<Rightarrow> Some v)"

text \<open>
  \<open>slot.update(updates)\<close> followed by \<open>slot["updated_at"] = updates.get("updated_at")\<close>.
\<close>

definition apply_updates :: "AppointmentSlot \<Rightarrow> update_data \<Rightarrow> AppointmentSlot" where
  "apply_updates slot updates =
     slot \<lparr> s_start_time := or_keep (data_start_time updates) (s_start_time slot),
            s_end_time := or_keep (data_end_time updates) (s_end_time slot),
            s_status := (case data_status updates of None \<Rightarrow> s_status slot | Some v \<Rightarrow> v),
            s_notes := or_keep (data_notes updates) (s_notes slot),
            s_pricing := or_keep (data_pricing updates) (s_pricing slot),
            s_special_requirements :=
              or_keep (data_special_requirements updates) (s_special_requirements slot),
            s_updated_at := data_updated_at updates \<rparr>"

fun update_appointment_slot ::
  "AppointmentSlot list \<Rightarrow> string \<Rightarrow> update_data \<Rightarrow> AppointmentSlot list \<times> bool" where
  "update_appointment_slot [] slot_id updates = ([], False)"
| "update_appointment_slot (slot # rest) slot_id updates =
     (if s_id slot = slot_id then (apply_updates slot updates # rest, True)
      else (case update_appointment_slot rest slot_id updates of
              (rest', found) \<Rightarrow> (slot # rest', found)))"

fun delete_appointment_slot :: "AppointmentSlot list \<Rightarrow> string \<Rightarrow> AppointmentSlot list \<times> bool" where
  "delete_appointment_slot [] slot_id = ([], False)"
| "delete_appointment_slot (slot # rest) slot_id =
     (if s_id slot = slot_id then (rest, True)
      else (case delete_appointment_slot rest slot_id of
              (rest', found) \<Rightarrow> (slot # rest', found)))"

section \<open>Conflict checker\<close>

text \<open>The \<open>for\<close> loop of \<open>check_slot_conflicts\<close> over the provider's slots.\<close>

fun conflict_scan :: "string option \<Rightarrow> instant \<Rightarrow> instant \<Rightarrow> AppointmentSlot list \<Rightarrow> bool" where
  "conflict_scan exclude_slot_id start_time' end_time' [] = False"
| "conflict_scan exclude_slot_id start_time' end_time' (slot # rest) =
     (if truthy exclude_slot_id \<and> Some (s_id slot) = exclude_slot_id
      then conflict_scan exclude_slot_id start_time' end_time' rest
      else if start_time' < s_slot_end_time slot \<and> end_time' > s_slot_start_time slot then True
      else conflict_scan exclude_slot_id start_time' end_time' rest)"

definition check_slot_conflicts ::
  "AppointmentSlot list \<Rightarrow> string \<Rightarrow> instant \<Rightarrow> instant \<Rightarrow> string option \<Rightarrow> bool" where
  "check_slot_conflicts slots provider_id' start_time' end_time' exclude_slot_id =
     conflict_scan exclude_slot_id start_time' end_time'
       (get_appointment_slots slots (Some provider_id') None None)"

text \<open>The two slots that the store holds when the module is loaded.\<close>

definition seed_slot :: "string \<Rightarrow> instant \<Rightarrow> instant \<Rightarrow> AppointmentSlot" where
  "seed_slot ident start_dt end_dt =
     \<lparr> s_id = ident,
       s_availability_id = ''availability-123'',
       s_provider_id = ''provider-123'',
       s_slot_start_time = start_dt,
       s_slot_end_time = end_dt,
       s_status = ''available'',
       s_patient_id = None,
       s_appointment_type = ''consultation'',
       s_booking_reference = None,
       s_created_at = ymd2ord 2024 2 1 * 86400,
       s_updated_at = Some (ymd2ord 2024 2 1 * 86400),
       s_start_time = None, s_end_time = None, s_notes = None, s_pricing = None,
       s_special_requirements = None \<rparr>"

definition seed_slots :: "AppointmentSlot list" where
  "seed_slots =
     [seed_slot ''slot-123'' (ymd2ord 2024 2 15 * 86400 + 14 * 3600)
        (ymd2ord 2024 2 15 * 86400 + 14 * 3600 + 1800),
      seed_slot ''slot-124'' (ymd2ord 2024 2 15 * 86400 + 14 * 3600 + 1800)
        (ymd2ord 2024 2 15 * 86400 + 15 * 3600)]"

section \<open>Availability service: delete and update\<close>

text \<open>
  The dictionary a service operation returns: on success the message and the data, on
  failure the message and the status code.
\<close>

datatype 'a response = Success string 'a | Failure string nat

subsection \<open>delete_availability_slot\<close>

definition deletable_sibling :: "string \<Rightarrow> AppointmentSlot \<Rightarrow> bool" where
  "deletable_sibling slot_id related_slot =
     (s_id related_slot \<noteq> slot_id \<and> s_status related_slot \<noteq> ''booked'')"

text \<open>
  The cascade loop when \<open>related_slots\<close> is a list of its own (the store has filtered by
  the availability id): each related slot that is not the deleted one and is not booked is
  deleted from the store.
\<close>

fun cascade_over :: "string \<Rightarrow> AppointmentSlot list \<Rightarrow> AppointmentSlot list \<Rightarrow> AppointmentSlot list" where
  "cascade_over slot_id [] slots = slots"
| "cascade_over slot_id (related_slot # rest) slots =
     cascade_over slot_id rest
       (if deletable_sibling slot_id related_slot
        then fst (delete_appointment_slot slots (s_id related_slot)) else slots)"

lemma length_delete_appointment_slot:
  "length (fst (delete_appointment_slot slots slot_id)) \<le> length slots"
  by (induction slots) (auto split: prod.splits)

text \<open>
  The cascade loop when the availability id is empty: the store returns the list
  \<open>APPOINTMENT_SLOTS\<close> itself, and the loop walks it by position while it deletes from it.
\<close>

function cascade_in_place :: "string \<Rightarrow> nat \<Rightarrow> AppointmentSlot list \<Rightarrow> AppointmentSlot list" where
  "cascade_in_place slot_id i slots =
     (if i < length slots then
        cascade_in_place slot_id (Suc i)
          (if deletable_sibling slot_id (slots ! i)
           then fst (delete_appointment_slot slots (s_id (slots ! i))) else slots)
      else slots)"
  by pat_completeness auto
termination
proof (relation "measure (\<lambda>(slot_id, i, slots). length slots - i)")
  show "wf (measure (\<lambda>(slot_id, i, slots). length slots - i))" by simp
next
  fix slot_id :: string and i :: nat and slots :: "AppointmentSlot list"
  assume "i < length slots"
  moreover have "length (fst (delete_appointment_slot slots (s_id (slots ! i)))) \<le> length slots"
    by (rule length_delete_appointment_slot)
  ultimately show "((slot_id, Suc i,
       if deletable_sibling slot_id (slots ! i)
       then fst (delete_appointment_slot slots (s_id (slots ! i))) else slots),
      (slot_id, i, slots)) \<in> measure (\<lambda>(slot_id, i, slots). length slots - i)"
    by auto
qed

declare cascade_in_place.simps [simp del]

definition delete_availability_slot ::
  "AppointmentSlot list \<Rightarrow> string \<Rightarrow> bool \<Rightarrow> unit response \<times> AppointmentSlot list" where
  "delete_availability_slot slots slot_id delete_recurring =
     (case get_appointment_slots slots None None (Some slot_id) of
        [] \<Rightarrow> (Failure ''Slot not found'' 404, slots)
      | slot # others \<Rightarrow>
          if s_status slot = ''booked'' then (Failure ''Cannot delete booked slot'' 400, slots)
          else
            (case delete_appointment_slot slots slot_id of
               (slots1, success) \<Rightarrow>
                 if \<not> success then (Failure ''Failed to delete slot'' 500, slots1)
                 else if delete_recurring then
                   (Success ''Slot deleted successfully'' (),
                    if truthy (Some (s_availability_id slot))
                    then cascade_over slot_id
                           (get_appointment_slots slots1 None (Some (s_availability_id slot)) None)
                           slots1
                    else cascade_in_place slot_id 0 slots1)
                 else (Success ''Slot deleted successfully'' (), slots1)))"

subsection \<open>update_availability_slot\<close>

text \<open>\<open>ProviderAvailabilityUpdate\<close>: the field \<open>f\<close> of the patch is \<open>upd_f\<close>.\<close>

record ProviderAvailabilityUpdate =
  upd_start_time :: "string option"
  upd_end_time :: "string option"
  upd_status :: "AvailabilityStatus option"
  upd_notes :: "string option"
  upd_pricing :: "Pricing option"
  upd_special_requirements :: "string list option"

text \<open>
  The value of \<open>updates.start_time or convert_from_utc(slot["slot_start_time"], "UTC")\<close>:
  the conversion is made only when the patch has no time, or an empty one.
\<close>

definition time_or_stored :: "tzdb \<Rightarrow> string option \<Rightarrow> instant \<Rightarrow> error + string" where
  "time_or_stored db given stored =
     (case given of
        Some s \<Rightarrow> if s \<noteq> [] then Inr s else convert_from_utc db stored ''UTC''
      | None \<Rightarrow> convert_from_utc db stored ''UTC'')"

text \<open>
  The conflict check of an update that gives a start or an end time: whether the new
  interval, on the UTC date of the stored start, conflicts with another slot of the provider.
\<close>

definition update_conflicts ::
  "tzdb \<Rightarrow> AppointmentSlot list \<Rightarrow> string \<Rightarrow> AppointmentSlot \<Rightarrow> ProviderAvailabilityUpdate \<Rightarrow> error + bool" where
  "update_conflicts db slots slot_id slot updates =
     (case time_or_stored db (upd_start_time updates) (s_slot_start_time slot) of
        Inl err \<Rightarrow> Inl err
      | Inr new_start_time \<Rightarrow>
          (case time_or_stored db (upd_end_time updates) (s_slot_end_time slot) of
             Inl err \<Rightarrow> Inl err
           | Inr new_end_time \<Rightarrow>
               (let slot_date = s_slot_start_time slot div 86400 in
                case convert_to_utc db new_start_time slot_date ''UTC'' of
                  Inl err \<Rightarrow> Inl err
                | Inr new_start_dt \<Rightarrow>
                    (case convert_to_utc db new_end_time slot_date ''UTC'' of
                       Inl err \<Rightarrow> Inl err
                     | Inr new_end_dt \<Rightarrow>
                         Inr (check_slot_conflicts slots (s_provider_id slot)
                                new_start_dt new_end_dt (Some slot_id))))))"

text \<open>
  The dictionary \<open>update_data\<close>: a field of the patch is copied when its truth value is
  true, so an absent field, an empty string and an empty list are left out; a status and a
  pricing that are present are always true.
\<close>

definition nonempty :: "'a list option \<Rightarrow> 'a list option" where
  "nonempty x = (case x of Some l \<Rightarrow> if l \<noteq> [] then Some l else None | None \<Rightarrow> None)"

definition make_update_data :: "env \<Rightarrow> ProviderAvailabilityUpdate \<Rightarrow> update_data" where
  "make_update_data e updates =
     \<lparr> data_start_time = nonempty (upd_start_time updates),
       data_end_time = nonempty (upd_end_time updates),
       data_status = map_option status_value (upd_status updates),
       data_notes = nonempty (upd_notes updates),
       data_pricing = upd_pricing updates,
       data_special_requirements = nonempty (upd_special_requirements updates),
       data_updated_at = Some (utcnow e) \<rparr>"

definition update_availability_slot ::
  "env \<Rightarrow> AppointmentSlot list \<Rightarrow> string \<Rightarrow> ProviderAvailabilityUpdate \<Rightarrow>
     unit response \<times> AppointmentSlot list" where
  "update_availability_slot e slots slot_id updates =
     (case get_appointment_slots slots None None (Some slot_id) of
        [] \<Rightarrow> (Failure ''Slot not found'' 404, slots)
      | slot # others \<Rightarrow>
          (case (if truthy (upd_start_time updates) \<or> truthy (upd_end_time updates)
                 then update_conflicts (tz_database e) slots slot_id slot updates
                 else Inr False) of
             Inl err \<Rightarrow> (Failure ''Failed to update slot'' 500, slots)
           | Inr True \<Rightarrow> (Failure ''Updated time conflicts with existing availability'' 409, slots)
           | Inr False \<Rightarrow>
               (case update_appointment_slot slots slot_id (make_update_data e updates) of
                  (slots1, success) \<Rightarrow>
                    if \<not> success then (Failure ''Failed to update slot'' 500, slots1)
                    else (Success ''Slot updated successfully'' (), slots1))))"

text \<open>A patch that sets the status and the notes, and the patch that only empties the notes.\<close>

definition status_notes_patch :: ProviderAvailabilityUpdate where
  "status_notes_patch =
     \<lparr> upd_start_time = None, upd_end_time = None, upd_status = Some BOOKED,
       upd_notes = Some ''moved'', upd_pricing = None, upd_special_requirements = None \<rparr>"

definition empty_notes_patch :: ProviderAvailabilityUpdate where
  "empty_notes_patch =
     \<lparr> upd_start_time = None, upd_end_time = None, upd_status = None,
       upd_notes = Some [], upd_pricing = None, upd_special_requirements = None \<rparr>"

section \<open>Recurrence expander\<close>

text \<open>
  The year, month and day of an ordinal, as Python's \<open>datetime\<close> module computes them
  (\<open>_ord2ymd\<close>).
\<close>

definition ord2ymd :: "date \<Rightarrow> int \<times> int \<times> int" where
  "ord2ymd ordinal =
     (let n = ordinal - 1;
          n400 = n div 146097; n = n mod 146097;
          n100 = n div 36524; n = n mod 36524;
          n4 = n div 1461; n = n mod 1461;
          n1 = n div 365; n = n mod 365;
          year = n400 * 400 + 1 + n100 * 100 + n4 * 4 + n1
      in if n1 = 4 \<or> n100 = 4 then (year - 1, 12, 31)
         else
           (let leapyear = (n1 = 3 \<and> (n4 \<noteq> 24 \<or> n100 = 3));
                month = (n + 50) div 32;
                preceding = [0, 31, 59, 90, 120, 151, 181, 212, 243, 273, 304, 334] ! nat (month - 1) +
                            (if month > 2 \<and> leapyear then 1 else 0)
            in if preceding > n
               then (let month' = month - 1;
                         preceding' = preceding -
                           ([31, 28, 31, 30, 31, 30, 31, 31, 30, 31, 30, 31] ! nat (month' - 1) +
                            (if month' = 2 \<and> leapyear then 1 else 0))
                     in (year, month', n - preceding' + 1))
               else (year, month, n - preceding + 1)))"

text \<open>
  Modelled from the spec: the recurrence-rule generation \<open>rrule(freq, dtstart, until)\<close>
  of the library \<open>dateutil\<close>, which is not part of the repository. In the spec's words
  it yields the dates from the start date up to and including the end date at the chosen
  frequency: every day; the days a whole number of weeks after the start; the days with the
  start's day of the month.
\<close>

definition day_of_month :: "date \<Rightarrow> int" where
  "day_of_month d = (case ord2ymd d of (y, m, dd) \<Rightarrow> dd)"

fun at_frequency :: "RecurrencePattern \<Rightarrow> date \<Rightarrow> date \<Rightarrow> bool" where
  "at_frequency DAILY start d = True"
| "at_frequency WEEKLY start d = ((d - start) mod 7 = 0)"
| "at_frequency MONTHLY start d = (day_of_month d = day_of_month start)"

definition rrule_dates :: "RecurrencePattern \<Rightarrow> date \<Rightarrow> date \<Rightarrow> date list" where
  "rrule_dates freq start until = filter (at_frequency freq start) [start..until]"

text \<open>
  The \<open>ProviderAvailabilityDB\<close> that the source builds from a creation request for a date:
  the fields of the request with the date put in and \<open>special_requirements or []\<close>, a new
  identifier, and the defaults of the other fields.
\<close>

definition availability_db :: "env \<Rightarrow> nat \<Rightarrow> ProviderAvailabilityCreate \<Rightarrow> date \<Rightarrow> ProviderAvailabilityDB" where
  "availability_db e n availability date_obj =
     ProviderAvailabilityCreate.extend
       (availability \<lparr> date := date_obj,
                       special_requirements :=
                         Some (case special_requirements availability of
                                 None \<Rightarrow> [] | Some l \<Rightarrow> l) \<rparr>)
       (ProviderAvailabilityDB.fields (uuid4 e n) 0 (utcnow e) (utcnow e))"

text \<open>The loop over the dates; \<open>n\<close> counts the identifiers handed out.\<close>

fun recurring_loop ::
  "env \<Rightarrow> ProviderAvailabilityCreate \<Rightarrow> nat \<Rightarrow> date list \<Rightarrow>
     (ProviderAvailabilityDB \<times> AppointmentSlot list) list outcome" where
  "recurring_loop e availability n [] = Return []"
| "recurring_loop e availability n (date_obj # dates) =
     (case generate_slots_from_availability e (Suc n) (availability_db e n availability date_obj) of
        Raise err \<Rightarrow> Raise err
      | Diverge \<Rightarrow> Diverge
      | Return slots \<Rightarrow>
          (case recurring_loop e availability (Suc n + length slots) dates of
             Raise err \<Rightarrow> Raise err
           | Diverge \<Rightarrow> Diverge
           | Return results \<Rightarrow>
               Return ((availability_db e n availability date_obj, slots) # results)))"

definition generate_recurring_slots ::
  "env \<Rightarrow> nat \<Rightarrow> ProviderAvailabilityCreate \<Rightarrow>
     (ProviderAvailabilityDB \<times> AppointmentSlot list) list outcome" where
  "generate_recurring_slots e n availability =
     (if \<not> is_recurring availability then Return []
      else (case recurrence_pattern availability of
              None \<Rightarrow> Return []
            | Some pattern \<Rightarrow>
                (case recurrence_end_date availability of
                   None \<Rightarrow> Return []
                 | Some until \<Rightarrow>
                     recurring_loop e availability n
                       (rrule_dates pattern (date availability) until))))"

section \<open>Availability service: create\<close>

record create_data =
  availability_id :: string
  slots_created :: nat
  date_range :: "date \<times> date"
  total_appointments_available :: int

text \<open>The loops that store the windows and their slots.\<close>

definition store_slots :: "AppointmentSlot list \<Rightarrow> AppointmentSlot list \<Rightarrow> AppointmentSlot list" where
  "store_slots stored slots = foldl add_appointment_slot stored slots"

fun store_results :: "state \<Rightarrow> (ProviderAvailabilityDB \<times> AppointmentSlot list) list \<Rightarrow> state" where
  "store_results st [] = st"
| "store_results st ((availability, slots) # results) =
     store_results
       (st \<lparr> PROVIDER_AVAILABILITY := add_provider_availability (PROVIDER_AVAILABILITY st) availability,
              APPOINTMENT_SLOTS := store_slots (APPOINTMENT_SLOTS st) slots,
              uuids_used := uuids_used st + 1 + length slots \<rparr>)
       results"

text \<open>
  The conflict check that precedes the creation of a window that is not recurring:
  \<open>Inl\<close> when a conversion raises, otherwise whether the interval conflicts.
\<close>

definition create_conflicts :: "env \<Rightarrow> state \<Rightarrow> ProviderAvailabilityCreate \<Rightarrow> error + bool" where
  "create_conflicts e st availability =
     (case convert_to_utc (tz_database e) (start_time availability) (date availability)
             (timezone availability) of
        Inl err \<Rightarrow> Inl err
      | Inr start_dt \<Rightarrow>
          (case convert_to_utc (tz_database e) (end_time availability) (date availability)
                  (timezone availability) of
             Inl err \<Rightarrow> Inl err
           | Inr end_dt \<Rightarrow>
               Inr (check_slot_conflicts (APPOINTMENT_SLOTS st) (provider_id availability)
                      start_dt end_dt None)))"

definition create_recurring ::
  "env \<Rightarrow> state \<Rightarrow> ProviderAvailabilityCreate \<Rightarrow> (create_data response \<times> state) option" where
  "create_recurring e st availability =
     (case generate_recurring_slots e (uuids_used st) availability of
        Diverge \<Rightarrow> None
      | Raise err \<Rightarrow> Some (Failure ''Failed to create availability slots'' 500, st)
      | Return recurring_results \<Rightarrow>
          (let st' = store_results st recurring_results in
           case recurrence_end_date availability of
             None \<Rightarrow> Some (Failure ''Failed to create availability slots'' 500, st')
           | Some until \<Rightarrow>
               Some (Success ''Availability slots created successfully''
                       \<lparr> availability_id = ''multiple'',
                         slots_created = length (concat (map snd recurring_results)),
                         date_range = (date availability, until),
                         total_appointments_available =
                           (\<Sum>(availability_db, slots) \<leftarrow> recurring_results.
                              int (length slots) * max_appointments_per_slot availability_db) \<rparr>,
                     st')))"

definition create_single ::
  "env \<Rightarrow> state \<Rightarrow> ProviderAvailabilityCreate \<Rightarrow> (create_data response \<times> state) option" where
  "create_single e st availability =
     (let availability_db = availability_db e (uuids_used st) availability (date availability);
          st1 = st \<lparr> PROVIDER_AVAILABILITY :=
                        add_provider_availability (PROVIDER_AVAILABILITY st) availability_db,
                      uuids_used := uuids_used st + 1 \<rparr> in
      case generate_slots_from_availability e (uuids_used st1) availability_db of
        Diverge \<Rightarrow> None
      | Raise err \<Rightarrow> Some (Failure ''Failed to create availability slots'' 500, st1)
      | Return slots \<Rightarrow>
          Some (Success ''Availability slots created successfully''
                  \<lparr> availability_id = db_id availability_db,
                    slots_created = length slots,
                    date_range = (date availability, date availability),
                    total_appointments_available =
                      int (length slots) * max_appointments_per_slot availability_db \<rparr>,
                st1 \<lparr> APPOINTMENT_SLOTS := store_slots (APPOINTMENT_SLOTS st1) slots,
                      uuids_used := uuids_used st1 + length slots \<rparr>))"

text \<open>
  \<open>create_provider_availability\<close>: \<open>None\<close> when the call does not return. An exception is
  caught and answered with the status 500; what was stored before it stays stored.
\<close>

definition create_provider_availability ::
  "env \<Rightarrow> state \<Rightarrow> ProviderAvailabilityCreate \<Rightarrow> (create_data response \<times> state) option" where
  "create_provider_availability e st availability =
     (if start_time availability \<ge> end_time availability
      then Some (Failure ''End time must be after start time'' 400, st)
      else
        (case (if \<not> is_recurring availability then create_conflicts e st availability
               else Inr False) of
           Inl err \<Rightarrow> Some (Failure ''Failed to create availability slots'' 500, st)
         | Inr True \<Rightarrow> Some (Failure ''Time slot conflicts with existing availability'' 409, st)
         | Inr False \<Rightarrow>
             if is_recurring availability then create_recurring e st availability
             else create_single e st availability))"

text \<open>
  The request of the repository's creation test, the same request for 09:15 to 09:45, and
  for 9:00 to 10:00 written without the leading zero; the store with nothing in it.
\<close>

definition example_request :: ProviderAvailabilityCreate where
  "example_request = ProviderAvailabilityCreate.truncate example_window"

definition overlapping_request :: ProviderAvailabilityCreate where
  "overlapping_request = example_request \<lparr> start_time := ''09:15'', end_time := ''09:45'' \<rparr>"

definition one_digit_request :: ProviderAvailabilityCreate where
  "one_digit_request = example_request \<lparr> start_time := ''9:00'', end_time := ''10:00'' \<rparr>"

definition empty_state :: state where
  "empty_state = \<lparr> PROVIDER_AVAILABILITY = [], APPOINTMENT_SLOTS = [], uuids_used = 0 \<rparr>"

text \<open>The request of the creation test, repeated every week until 2024-03-01.\<close>

definition weekly_request :: ProviderAvailabilityCreate where
  "weekly_request =
     example_request \<lparr> is_recurring := True, recurrence_pattern := Some WEEKLY,
                       recurrence_end_date := Some (ymd2ord 2024 3 1) \<rparr>"



section \<open>Availability service: search\<close>






























section \<open>Properties of the slot generator\<close>

lemmas parse_defs = parse_time_def py_int_def strip_def is_space_def is_digit_def digit_val_def

lemmas calendar_defs = ymd2ord_def days_before_year_def days_before_month_def is_leap_def

lemmas example_defs = example_env_def example_window_def example_tzdb_def new_york_def
  utc_zone_def spring_forward_window_def

lemma plus_minutes_eq:
  assumes "datetime_in_range t" and "datetime_in_range (t + 60 * m)"
  shows "plus_minutes t m = Inr (t + 60 * m)"
proof -
  from assms have "- (3652060 * 86400) < 60 * m" "60 * m < 3652060 * 86400"
    by (simp_all add: datetime_in_range_def)
  then have "- 999999999 \<le> (60 * m) div 86400 \<and> (60 * m) div 86400 \<le> 999999999"
    by arith
  with assms(2) show ?thesis by (simp add: plus_minutes_def timedelta_minutes_def)
qed

lemma slot_loop_returns:
  "0 < slot_duration av \<Longrightarrow> 0 \<le> break_duration av \<Longrightarrow> datetime_in_range cur \<Longrightarrow>
   datetime_in_range (end_dt + 60 * (slot_duration av + break_duration av)) \<Longrightarrow>
   \<exists>ss. slot_loop e av end_dt cur n = Return ss"
proof (induction e av end_dt cur n rule: slot_loop.induct)
  case (1 e av end_dt cur n)
  show ?case
  proof (cases "cur < end_dt")
    case False
    then show ?thesis by (subst slot_loop.simps) simp
  next
    case True
    have "datetime_in_range (cur + 60 * slot_duration av)"
      using 1(2-5) True by (simp add: datetime_in_range_def)
    from plus_minutes_eq[OF 1(4) this]
    have p1: "plus_minutes cur (slot_duration av) = Inr (cur + 60 * slot_duration av)" .
    show ?thesis
    proof (cases "end_dt < cur + 60 * slot_duration av")
      case True
      with \<open>cur < end_dt\<close> p1 show ?thesis by (subst slot_loop.simps) simp
    next
      case False
      have r1: "datetime_in_range (cur + 60 * slot_duration av)"
        and r2: "datetime_in_range (cur + 60 * slot_duration av + 60 * break_duration av)"
        using 1(2-5) True False by (simp_all add: datetime_in_range_def)
      from plus_minutes_eq[OF r1 r2]
      have p2: "plus_minutes (cur + 60 * slot_duration av) (break_duration av) =
                  Inr (cur + 60 * slot_duration av + 60 * break_duration av)" .
      have nz: "slot_duration av + break_duration av \<noteq> 0" using 1(2,3) by simp
      from 1(1)[OF True p1 False p2 nz 1(2,3) r2 1(5)]
      obtain ss where "slot_loop e av end_dt
          (cur + 60 * slot_duration av + 60 * break_duration av) (Suc n) = Return ss" by blast
      with True False p1 p2 nz show ?thesis by (subst slot_loop.simps) simp
    qed
  qed
qed

lemma slot_loop_Return_cases:
  assumes "slot_loop e av end_dt cur n = Return ss"
  obtains (stop) "ss = []" "\<not> cur < end_dt \<or> end_dt < cur + 60 * slot_duration av"
  | (slot) rest where "ss = new_slot e n av cur (cur + 60 * slot_duration av) # rest"
      "cur < end_dt" "plus_minutes cur (slot_duration av) = Inr (cur + 60 * slot_duration av)"
      "\<not> end_dt < cur + 60 * slot_duration av"
      "plus_minutes (cur + 60 * slot_duration av) (break_duration av) =
         Inr (cur + 60 * slot_duration av + 60 * break_duration av)"
      "slot_duration av + break_duration av \<noteq> 0"
      "slot_loop e av end_dt (cur + 60 * slot_duration av + 60 * break_duration av) (Suc n) =
         Return rest"
proof (cases "cur < end_dt")
  case False
  with assms have "ss = []" by (subst (asm) slot_loop.simps) simp
  with False stop show ?thesis by simp
next
  case True
  with assms obtain se where p1: "plus_minutes cur (slot_duration av) = Inr se"
    by (subst (asm) slot_loop.simps) (auto split: sum.splits)
  from plus_minutes_Inr[OF p1] have se: "se = cur + 60 * slot_duration av" by simp
  show ?thesis
  proof (cases "end_dt < se")
    case True
    with assms \<open>cur < end_dt\<close> p1 have "ss = []" by (subst (asm) slot_loop.simps) simp
    with True se stop show ?thesis by simp
  next
    case False
    with assms True p1 obtain nx where p2: "plus_minutes se (break_duration av) = Inr nx"
      by (subst (asm) slot_loop.simps) (auto split: sum.splits)
    from plus_minutes_Inr[OF p2] have nx: "nx = se + 60 * break_duration av" by simp
    from assms True p1 False p2 have nz: "slot_duration av + break_duration av \<noteq> 0"
      by (subst (asm) slot_loop.simps) (auto split: if_splits)
    from assms True p1 False p2 nz obtain rest
      where "slot_loop e av end_dt nx (Suc n) = Return rest"
        and "ss = new_slot e n av cur se # rest"
      by (subst (asm) slot_loop.simps) (auto split: outcome.splits)
    with slot[of rest] True p1 False p2 nz se nx show ?thesis by simp
  qed
qed

lemma slot_loop_nth:
  "slot_loop e av end_dt cur n = Return ss \<Longrightarrow> i < length ss \<Longrightarrow>
     ss ! i = new_slot e (n + i) av (cur + 60 * (slot_duration av + break_duration av) * int i)
                (cur + 60 * (slot_duration av + break_duration av) * int i + 60 * slot_duration av) \<and>
     cur + 60 * (slot_duration av + break_duration av) * int i + 60 * slot_duration av \<le> end_dt"
proof (induction e av end_dt cur n arbitrary: ss i rule: slot_loop.induct)
  case (1 e av end_dt cur n)
  from 1(2) show ?case
  proof (cases rule: slot_loop_Return_cases)
    case stop
    with 1(3) show ?thesis by simp
  next
    case (slot rest)
    show ?thesis
    proof (cases i)
      case 0
      with slot(1,4) show ?thesis by simp
    next
      case (Suc j)
      with 1(3) slot(1) have j: "j < length rest" by simp
      from 1(1)[OF slot(2,3,4,5,6,7) j]
      show ?thesis using Suc slot(1) by (simp add: algebra_simps)
    qed
  qed
qed

lemma slot_loop_invariant:
  assumes ss: "slot_loop e av end_dt cur n = Return ss"
      and d: "0 < slot_duration av" and b: "0 \<le> break_duration av"
  shows "(\<forall>i<length ss.
            s_slot_end_time (ss ! i) = s_slot_start_time (ss ! i) + 60 * slot_duration av \<and>
            cur \<le> s_slot_start_time (ss ! i) \<and> s_slot_end_time (ss ! i) \<le> end_dt) \<and>
         (\<forall>i. Suc i < length ss \<longrightarrow>
            s_slot_start_time (ss ! Suc i) = s_slot_end_time (ss ! i) + 60 * break_duration av) \<and>
         (\<forall>i j. i < j \<and> j < length ss \<longrightarrow>
            s_slot_start_time (ss ! i) < s_slot_start_time (ss ! j) \<and>
            s_slot_end_time (ss ! i) \<le> s_slot_start_time (ss ! j))"
proof -
  define K where "K i = (slot_duration av + break_duration av) * int i" for i
  have st: "s_slot_start_time (ss ! i) = cur + 60 * K i" if "i < length ss" for i
    using slot_loop_nth[OF ss that] by (simp add: new_slot_def K_def algebra_simps)
  have en: "s_slot_end_time (ss ! i) = cur + 60 * K i + 60 * slot_duration av"
    if "i < length ss" for i
    using slot_loop_nth[OF ss that] by (simp add: new_slot_def K_def algebra_simps)
  have le: "cur + 60 * K i + 60 * slot_duration av \<le> end_dt" if "i < length ss" for i
    using slot_loop_nth[OF ss that] by (simp add: K_def algebra_simps)
  have k: "0 < slot_duration av + break_duration av" using d b by simp
  have K0: "0 \<le> K i" for i using k by (simp add: K_def)
  have KS: "K (Suc i) = K i + slot_duration av + break_duration av" for i
    by (simp add: K_def algebra_simps)
  have Kmono: "K i + slot_duration av + break_duration av \<le> K j" if "i < j" for i j
  proof -
    from that have "int i + 1 \<le> int j" by simp
    then have "(slot_duration av + break_duration av) * (int i + 1)
                 \<le> (slot_duration av + break_duration av) * int j"
      using k by (intro mult_left_mono) simp_all
    then show ?thesis by (simp add: K_def algebra_simps)
  qed
  have p1: "\<forall>i<length ss.
            s_slot_end_time (ss ! i) = s_slot_start_time (ss ! i) + 60 * slot_duration av \<and>
            cur \<le> s_slot_start_time (ss ! i) \<and> s_slot_end_time (ss ! i) \<le> end_dt"
  proof (intro allI impI)
    fix i assume i: "i < length ss"
    show "s_slot_end_time (ss ! i) = s_slot_start_time (ss ! i) + 60 * slot_duration av \<and>
            cur \<le> s_slot_start_time (ss ! i) \<and> s_slot_end_time (ss ! i) \<le> end_dt"
      using st[OF i] en[OF i] le[OF i] K0[of i] by simp
  qed
  have p2: "\<forall>i. Suc i < length ss \<longrightarrow>
            s_slot_start_time (ss ! Suc i) = s_slot_end_time (ss ! i) + 60 * break_duration av"
  proof (intro allI impI)
    fix i assume i: "Suc i < length ss"
    then have i': "i < length ss" by simp
    show "s_slot_start_time (ss ! Suc i) = s_slot_end_time (ss ! i) + 60 * break_duration av"
      using st[OF i] en[OF i'] KS[of i] by simp
  qed
  have p3: "\<forall>i j. i < j \<and> j < length ss \<longrightarrow>
            s_slot_start_time (ss ! i) < s_slot_start_time (ss ! j) \<and>
            s_slot_end_time (ss ! i) \<le> s_slot_start_time (ss ! j)"
  proof (intro allI impI)
    fix i j assume ij: "i < j \<and> j < length ss"
    then have i: "i < length ss" and j: "j < length ss" and lt: "i < j" by simp_all
    show "s_slot_start_time (ss ! i) < s_slot_start_time (ss ! j) \<and>
            s_slot_end_time (ss ! i) \<le> s_slot_start_time (ss ! j)"
      using st[OF i] st[OF j] en[OF i] Kmono[OF lt] d b by simp
  qed
  from p1 p2 p3 show ?thesis by blast
qed

lemma generate_slots_eq:
  assumes "convert_to_utc (tz_database e) (start_time av) (date av) (timezone av) = Inr start_dt"
      and "convert_to_utc (tz_database e) (end_time av) (date av) (timezone av) = Inr end_dt"
  shows "generate_slots_from_availability e n av = slot_loop e av end_dt start_dt n"
  using assms by (simp add: generate_slots_from_availability_def)

lemma convert_to_utc_in_range:
  "convert_to_utc db t d z = Inr u \<Longrightarrow> datetime_in_range u"
  by (auto simp: convert_to_utc_def Let_def split: option.splits if_splits)

text \<open>
  C10. For a window whose start and end convert to UTC, with a positive slot duration and a
  break that is not negative: whenever the generator returns a sequence of slots, every slot
  lasts exactly \<open>slot_duration\<close> minutes and lies within the converted window; each slot
  starts \<open>break_duration\<close> minutes after the end of the one before; the slots are in
  strictly increasing order and no two overlap. And the generator does return when the
  instant one slot and one break after the end of the window is still a \<open>datetime\<close>
  (otherwise the sum that the loop computes before it compares can raise
  \<open>OverflowError\<close>).
\<close>

theorem slot_generator_invariant:
  assumes "convert_to_utc (tz_database e) (start_time av) (date av) (timezone av) = Inr start_dt"
      and "convert_to_utc (tz_database e) (end_time av) (date av) (timezone av) = Inr end_dt"
      and "0 < slot_duration av" and "0 \<le> break_duration av"
  shows "(\<forall>slots. generate_slots_from_availability e n av = Return slots \<longrightarrow>
           (\<forall>i<length slots.
              s_slot_end_time (slots ! i) = s_slot_start_time (slots ! i) + 60 * slot_duration av \<and>
              start_dt \<le> s_slot_start_time (slots ! i) \<and> s_slot_end_time (slots ! i) \<le> end_dt) \<and>
           (\<forall>i. Suc i < length slots \<longrightarrow>
              s_slot_start_time (slots ! Suc i) = s_slot_end_time (slots ! i) + 60 * break_duration av) \<and>
           (\<forall>i j. i < j \<and> j < length slots \<longrightarrow>
              s_slot_start_time (slots ! i) < s_slot_start_time (slots ! j) \<and>
              s_slot_end_time (slots ! i) \<le> s_slot_start_time (slots ! j))) \<and>
         (datetime_in_range (end_dt + 60 * (slot_duration av + break_duration av)) \<longrightarrow>
            (\<exists>slots. generate_slots_from_availability e n av = Return slots))"
proof -
  have inv: "(\<forall>i<length slots.
              s_slot_end_time (slots ! i) = s_slot_start_time (slots ! i) + 60 * slot_duration av \<and>
              start_dt \<le> s_slot_start_time (slots ! i) \<and> s_slot_end_time (slots ! i) \<le> end_dt) \<and>
           (\<forall>i. Suc i < length slots \<longrightarrow>
              s_slot_start_time (slots ! Suc i) = s_slot_end_time (slots ! i) + 60 * break_duration av) \<and>
           (\<forall>i j. i < j \<and> j < length slots \<longrightarrow>
              s_slot_start_time (slots ! i) < s_slot_start_time (slots ! j) \<and>
              s_slot_end_time (slots ! i) \<le> s_slot_start_time (slots ! j))"
    if "generate_slots_from_availability e n av = Return slots" for slots
  proof -
    from that generate_slots_eq[OF assms(1,2)]
    have ss: "slot_loop e av end_dt start_dt n = Return slots" by simp
    from slot_loop_invariant[OF ss assms(3,4)] show ?thesis .
  qed
  have ret: "\<exists>slots. generate_slots_from_availability e n av = Return slots"
    if r: "datetime_in_range (end_dt + 60 * (slot_duration av + break_duration av))"
    using slot_loop_returns[OF assms(3,4) convert_to_utc_in_range[OF assms(1)] r]
    unfolding generate_slots_eq[OF assms(1,2)] .
  from inv ret show ?thesis by blast
qed

lemma example_window_start:
  "convert_to_utc (tz_database example_env) (start_time example_window) (date example_window)
     (timezone example_window) = Inr 63843688800"
  by (simp add: convert_to_utc_def example_defs parse_defs calendar_defs datetime_in_range_def)

lemma example_window_end:
  "convert_to_utc (tz_database example_env) (end_time example_window) (date example_window)
     (timezone example_window) = Inr 63843696000"
  by (simp add: convert_to_utc_def example_defs parse_defs calendar_defs datetime_in_range_def)

theorem slot_generator_invariant_witness:
  "\<exists>slots. generate_slots_from_availability example_env 0 example_window = Return slots \<and>
         (\<forall>i<length slots.
            s_slot_end_time (slots ! i) = s_slot_start_time (slots ! i) + 60 * 30 \<and>
            63843688800 \<le> s_slot_start_time (slots ! i) \<and> s_slot_end_time (slots ! i) \<le> 63843696000) \<and>
         (\<forall>i. Suc i < length slots \<longrightarrow>
            s_slot_start_time (slots ! Suc i) = s_slot_end_time (slots ! i) + 60 * 0) \<and>
         (\<forall>i j. i < j \<and> j < length slots \<longrightarrow>
            s_slot_start_time (slots ! i) < s_slot_start_time (slots ! j) \<and>
            s_slot_end_time (slots ! i) \<le> s_slot_start_time (slots ! j))"
proof -
  have d: "0 < slot_duration example_window" "0 \<le> break_duration example_window"
    by (simp_all add: example_window_def)
  have v: "slot_duration example_window = 30" "break_duration example_window = 0"
    by (simp_all add: example_window_def)
  have r: "datetime_in_range (63843696000 + 60 * (30 + 0))"
    by (simp add: datetime_in_range_def)
  show ?thesis
    using slot_generator_invariant[OF example_window_start example_window_end d, of 0] r
    unfolding v by blast
qed

lemma slot_loop_count:
  "0 < slot_duration av \<Longrightarrow> break_duration av = 0 \<Longrightarrow>
   end_dt - cur = 60 * slot_duration av * int k \<Longrightarrow>
   datetime_in_range cur \<Longrightarrow> datetime_in_range end_dt \<Longrightarrow>
   \<exists>ss. slot_loop e av end_dt cur n = Return ss \<and> length ss = k"
proof (induction k arbitrary: cur n)
  case 0
  then show ?case by (subst slot_loop.simps) simp
next
  case (Suc k)
  let ?next = "cur + 60 * slot_duration av"
  have nn: "0 \<le> 60 * slot_duration av * int k" using Suc.prems(1) by simp
  have eq: "end_dt - cur = 60 * slot_duration av * int k + 60 * slot_duration av"
    using Suc.prems(3) by (simp add: algebra_simps)
  have lt: "cur < end_dt" using nn eq Suc.prems(1) by linarith
  have fit: "\<not> ?next > end_dt" using nn eq by linarith
  have r: "datetime_in_range ?next"
    using Suc.prems(1,4,5) fit by (simp add: datetime_in_range_def)
  have p1: "plus_minutes cur (slot_duration av) = Inr ?next"
    by (rule plus_minutes_eq[OF Suc.prems(4) r])
  have p2: "plus_minutes ?next (break_duration av) = Inr ?next"
    using plus_minutes_eq[OF r, of 0] r Suc.prems(2) by simp
  have "end_dt - ?next = 60 * slot_duration av * int k" using eq by linarith
  from Suc.IH[OF Suc.prems(1,2) this r Suc.prems(5), of "Suc n"]
  obtain ss where ss: "slot_loop e av end_dt ?next (Suc n) = Return ss" "length ss = k" by blast
  show ?case
    using lt fit ss p1 p2 Suc.prems(1,2) by (subst slot_loop.simps) simp
qed

text \<open>
  C1, as amended. For a window whose time zone is known and whose start and end parse, with
  the end later than the start, a positive slot duration, no break, a local span that is an
  exact multiple of the slot duration, the same UTC offset attached at the start and at the
  end (so that the span between the converted instants is the local span), and converted
  instants that are still within the range of \<open>datetime\<close> (so that the conversions do
  not raise), the generator returns exactly span / slot_duration slots.
\<close>

theorem slot_count_exact_multiple:
  assumes tz: "tz_database e (timezone av) = Some tz"
      and ps: "parse_time (start_time av) = Some (h1, m1)"
      and pe: "parse_time (end_time av) = Some (h2, m2)"
      and o1: "localize_utcoffset tz (date av * 86400 + h1 * 3600 + m1 * 60) = Some offset"
      and o2: "localize_utcoffset tz (date av * 86400 + h2 * 3600 + m2 * 60) = Some offset"
      and r1: "datetime_in_range (date av * 86400 + h1 * 3600 + m1 * 60 - offset)"
      and r2: "datetime_in_range (date av * 86400 + h2 * 3600 + m2 * 60 - offset)"
      and lt: "h1 * 60 + m1 < h2 * 60 + m2"
      and d: "0 < slot_duration av" and b: "break_duration av = 0"
      and m: "((h2 * 60 + m2) - (h1 * 60 + m1)) mod slot_duration av = 0"
  shows "\<exists>slots. generate_slots_from_availability e n av = Return slots \<and>
           int (length slots) = ((h2 * 60 + m2) - (h1 * 60 + m1)) div slot_duration av"
proof -
  define span where "span = (h2 * 60 + m2) - (h1 * 60 + m1)"
  define q where "q = span div slot_duration av"
  define start_dt where "start_dt = date av * 86400 + h1 * 3600 + m1 * 60 - offset"
  define end_dt where "end_dt = date av * 86400 + h2 * 3600 + m2 * 60 - offset"
  have cs: "convert_to_utc (tz_database e) (start_time av) (date av) (timezone av) = Inr start_dt"
    using tz ps o1 r1 by (simp add: convert_to_utc_def start_dt_def Let_def)
  have ce: "convert_to_utc (tz_database e) (end_time av) (date av) (timezone av) = Inr end_dt"
    using tz pe o2 r2 by (simp add: convert_to_utc_def end_dt_def Let_def)
  have "span mod slot_duration av = 0" using m by (simp add: span_def)
  then have sq: "span = slot_duration av * q"
    unfolding q_def by (metis mult_div_mod_eq add.right_neutral)
  have "0 < span" using lt by (simp add: span_def)
  then have q0: "0 \<le> q" using d by (simp add: q_def pos_imp_zdiv_nonneg_iff)
  have "end_dt - start_dt = 60 * span" by (simp add: end_dt_def start_dt_def span_def)
  then have "end_dt - start_dt = 60 * slot_duration av * int (nat q)"
    using sq q0 by simp
  from slot_loop_count[OF d b this] r1 r2
  obtain ss where ss: "slot_loop e av end_dt start_dt n = Return ss" "length ss = nat q"
    unfolding start_dt_def end_dt_def by blast
  have "generate_slots_from_availability e n av = Return ss"
    using generate_slots_eq[OF cs ce] ss(1) by simp
  moreover have "int (length ss) = q" using ss(2) q0 by simp
  ultimately show ?thesis unfolding q_def span_def by blast
qed

theorem slot_count_exact_multiple_witness:
  "\<exists>slots. generate_slots_from_availability example_env 0 example_window = Return slots \<and>
     int (length slots) = 4"
proof -
  have tz: "tz_database example_env (timezone example_window) = Some new_york"
    by (simp add: example_defs)
  have ps: "parse_time (start_time example_window) = Some (9, 0)"
    by (simp add: example_defs parse_defs)
  have pe: "parse_time (end_time example_window) = Some (11, 0)"
    by (simp add: example_defs parse_defs)
  have o1: "localize_utcoffset new_york (date example_window * 86400 + 9 * 3600 + 0 * 60) =
              Some (- 18000)"
    by (simp add: example_defs calendar_defs datetime_in_range_def)
  have o2: "localize_utcoffset new_york (date example_window * 86400 + 11 * 3600 + 0 * 60) =
              Some (- 18000)"
    by (simp add: example_defs calendar_defs datetime_in_range_def)
  have r1: "datetime_in_range (date example_window * 86400 + 9 * 3600 + 0 * 60 - (- 18000))"
    by (simp add: example_defs calendar_defs datetime_in_range_def)
  have r2: "datetime_in_range (date example_window * 86400 + 11 * 3600 + 0 * 60 - (- 18000))"
    by (simp add: example_defs calendar_defs datetime_in_range_def)
  have v: "slot_duration example_window = 30" "break_duration example_window = 0"
    by (simp_all add: example_defs)
  show ?thesis
    using slot_count_exact_multiple[OF tz ps pe o1 o2 r1 r2, of 0] v by simp
qed

text \<open>
  C1 as stated fails on the day the clocks go forward: the window 01:00 to 04:00 with
  30-minute slots and no break has a local span of 180 minutes, six times the slot
  duration, and the generator returns four slots, from 06:00 to 08:00 UTC.
\<close>

theorem slot_count_local_span_counterexample:
  "parse_time (start_time spring_forward_window) = Some (1, 0) \<and>
   parse_time (end_time spring_forward_window) = Some (4, 0) \<and>
   slot_duration spring_forward_window = 30 \<and>
   break_duration spring_forward_window = 0 \<and>
   ((4 * 60 + 0) - (1 * 60 + 0)) mod 30 = (0::int) \<and>
   ((4 * 60 + 0) - (1 * 60 + 0)) div 30 = (6::int) \<and>
   generate_slots_from_availability example_env 0 spring_forward_window =
     Return [new_slot example_env 0 spring_forward_window 63845733600 63845735400,
             new_slot example_env 1 spring_forward_window 63845735400 63845737200,
             new_slot example_env 2 spring_forward_window 63845737200 63845739000,
             new_slot example_env 3 spring_forward_window 63845739000 63845740800]"
  by (simp add: generate_slots_from_availability_def convert_to_utc_def example_defs parse_defs
        calendar_defs slot_loop.simps Let_def numeral_2_eq_2 numeral_3_eq_3
        plus_minutes_def timedelta_minutes_def datetime_in_range_def)

text \<open>
  On the last day of the range of \<open>datetime\<close> the loop can raise: for 23:00 to 23:59 UTC
  on 9999-12-31 with 30-minute slots, the first slot fits, and the end of the second,
  24:00, is computed before it is compared with the end of the window.
\<close>

lemma last_day_window_raises:
  "generate_slots_from_availability example_env 0
     (example_window \<lparr> date := ymd2ord 9999 12 31, start_time := ''23:00'',
                        end_time := ''23:59'', timezone := ''UTC'' \<rparr>) = Raise OverflowError"
  by (simp add: generate_slots_from_availability_def convert_to_utc_def example_defs parse_defs
        calendar_defs slot_loop.simps Let_def
        plus_minutes_def timedelta_minutes_def datetime_in_range_def)

section \<open>Time strings\<close>

lemma digit_facts:
  assumes "is_digit c"
  shows "c \<noteq> CHR '':''" "\<not> is_space c" "c \<noteq> CHR ''-''" "c \<noteq> CHR ''+''" "c \<noteq> CHR ''_''"
        "digit_val c < 10" "digit_char (digit_val c) = c" "of_char c = 48 + digit_val c"
  using assms by (auto simp: is_digit_def is_space_def digit_val_def digit_char_def)

lemma hour_digits_facts:
  assumes "hour_digits a b"
  shows "is_digit a" "is_digit b" "10 * digit_val a + digit_val b \<le> 23"
  using assms by (auto simp: hour_digits_def is_digit_def digit_val_def)

lemma minute_digits_facts:
  assumes "minute_digits c d"
  shows "is_digit c" "is_digit d" "10 * digit_val c + digit_val d \<le> 59"
  using assms by (auto simp: minute_digits_def is_digit_def digit_val_def)

lemma py_int_two_digits:
  assumes "is_digit a" "is_digit b"
  shows "py_int [a, b] = Some (int (10 * digit_val a + digit_val b))"
  using assms digit_facts[OF assms(1)] digit_facts[OF assms(2)]
  by (simp add: py_int_def strip_def)

lemma two_digits_of_digits:
  assumes "is_digit a" "is_digit b"
  shows "two_digits (int (10 * digit_val a + digit_val b)) = [a, b]"
proof -
  have "nat (int (10 * digit_val a + digit_val b)) = 10 * digit_val a + digit_val b"
    by (rule nat_int)
  then show ?thesis
    using digit_facts(6,7)[OF assms(1)] digit_facts(6,7)[OF assms(2)]
    unfolding two_digits_def by simp
qed

lemma split_colon_hhmm:
  assumes "is_digit a" "is_digit b" "is_digit c" "is_digit d"
  shows "split_colon [a, b, CHR '':'', c, d] = [[a, b], [c, d]]"
  using digit_facts(1)[OF assms(1)] digit_facts(1)[OF assms(2)]
        digit_facts(1)[OF assms(3)] digit_facts(1)[OF assms(4)]
  by simp

lemma is_hhmm_cases:
  assumes "is_hhmm t"
  obtains a b c d where "t = [a, b, CHR '':'', c, d]" "hour_digits a b" "minute_digits c d"
  using assms by (auto simp: is_hhmm_def split: list.splits)

lemma parse_time_hhmm:
  assumes "is_hhmm t"
  shows "\<exists>h m. parse_time t = Some (h, m) \<and> 0 \<le> h \<and> h \<le> 23 \<and> 0 \<le> m \<and> m \<le> 59 \<and>
           two_digits h @ '':'' @ two_digits m = t"
proof -
  from assms obtain a b c d where t: "t = [a, b, CHR '':'', c, d]"
    and h: "hour_digits a b" and m: "minute_digits c d" by (rule is_hhmm_cases)
  note hf = hour_digits_facts[OF h] and mf = minute_digits_facts[OF m]
  have "parse_time t = Some (int (10 * digit_val a + digit_val b), int (10 * digit_val c + digit_val d))"
    using hf(3) mf(3)
    unfolding parse_time_def t split_colon_hhmm[OF hf(1,2) mf(1,2)]
    by (simp add: py_int_two_digits[OF hf(1,2)] py_int_two_digits[OF mf(1,2)])
  moreover have "two_digits (int (10 * digit_val a + digit_val b)) @ '':'' @
                 two_digits (int (10 * digit_val c + digit_val d)) = t"
    unfolding two_digits_of_digits[OF hf(1,2)] two_digits_of_digits[OF mf(1,2)] t by simp
  ultimately show ?thesis using hf(3) mf(3) by auto
qed

lemma hour_of_local:
  fixes d h m :: int
  assumes "0 \<le> h" "h \<le> 23" "0 \<le> m" "m \<le> 59"
  shows "(d * 86400 + h * 3600 + m * 60) div 3600 mod 24 = h"
        "(d * 86400 + h * 3600 + m * 60) div 60 mod 60 = m"
proof -
  have "(d * 86400 + h * 3600 + m * 60) div 3600 = d * 24 + h"
    using assms by (intro int_div_pos_eq[where r = "m * 60"]) auto
  then show "(d * 86400 + h * 3600 + m * 60) div 3600 mod 24 = h"
    using assms by simp
  have "(d * 86400 + h * 3600 + m * 60) div 60 = d * 1440 + h * 60 + m"
    by simp
  moreover have "(d * 1440 + h * 60 + m) mod 60 = m"
    using assms by (intro int_mod_pos_eq[where q = "d * 24 + h"]) auto
  ultimately show "(d * 86400 + h * 3600 + m * 60) div 60 mod 60 = m"
    by (simp only:)
qed


lemma local_datetime_in_range:
  fixes d h m :: int
  assumes "is_date d" "0 \<le> h" "h \<le> 23" "0 \<le> m" "m \<le> 59"
  shows "datetime_in_range (d * 86400 + h * 3600 + m * 60)"
  using assms by (simp add: is_date_def datetime_in_range_def)

text \<open>
  C5, as amended. For a time string \<open>t\<close> of the form HH:MM, a date and a known zone in
  which the local time is on the clock, and for which the local time minus its offset is
  still within the range of \<open>datetime\<close>, converting \<open>t\<close> to UTC succeeds and converting
  the instant back gives \<open>t\<close> again.
\<close>

theorem time_conversion_round_trip:
  assumes "is_hhmm t" and "db tzname = Some tz" and "parse_time t = Some (h, m)"
      and "is_date d"
      and "on_the_clock tz (d * 86400 + h * 3600 + m * 60)"
      and "localize_utcoffset tz (d * 86400 + h * 3600 + m * 60) = Some offset"
      and "datetime_in_range (d * 86400 + h * 3600 + m * 60 - offset)"
  shows "\<exists>u. convert_to_utc db t d tzname = Inr u \<and> convert_from_utc db u tzname = Inr t"
proof -
  from parse_time_hhmm[OF assms(1)] assms(3)
  have r: "0 \<le> h" "h \<le> 23" "0 \<le> m" "m \<le> 59" "two_digits h @ '':'' @ two_digits m = t"
    by auto
  define loc where "loc = d * 86400 + h * 3600 + m * 60"
  define u where "u = loc - offset"
  have cu: "convert_to_utc db t d tzname = Inr u"
    using assms(2,3,6,7) by (simp add: convert_to_utc_def u_def loc_def Let_def)
  have "utcoffset_at tz u = offset"
    using assms(5,6) by (simp add: on_the_clock_def u_def loc_def)
  then have lb: "u + utcoffset_at tz u = loc" by (simp add: u_def)
  have lr: "datetime_in_range loc"
    unfolding loc_def by (rule local_datetime_in_range[OF assms(4) r(1-4)])
  have "convert_from_utc db u tzname =
          Inr (two_digits (loc div 3600 mod 24) @ '':'' @ two_digits (loc div 60 mod 60))"
    using assms(2) lr by (simp add: convert_from_utc_def Let_def lb)
  also have "\<dots> = Inr t"
    unfolding loc_def hour_of_local[OF r(1-4)] using r(5) by simp
  finally show ?thesis using cu by blast
qed

theorem time_conversion_round_trip_witness:
  "\<exists>u. convert_to_utc example_tzdb ''09:00'' (ymd2ord 2024 2 15) ''America/New_York'' = Inr u \<and>
       convert_from_utc example_tzdb u ''America/New_York'' = Inr ''09:00''"
proof -
  have a: "is_hhmm ''09:00''"
    by (simp add: is_hhmm_def hour_digits_def minute_digits_def is_digit_def)
  have b: "example_tzdb ''America/New_York'' = Some new_york" by (simp add: example_tzdb_def)
  have c: "parse_time ''09:00'' = Some (9, 0)" by (simp add: parse_defs)
  have d: "is_date (ymd2ord 2024 2 15)" by (simp add: is_date_def calendar_defs)
  have e: "on_the_clock new_york (ymd2ord 2024 2 15 * 86400 + 9 * 3600 + 0 * 60)"
    by (simp add: on_the_clock_def new_york_def calendar_defs datetime_in_range_def)
  have f: "localize_utcoffset new_york (ymd2ord 2024 2 15 * 86400 + 9 * 3600 + 0 * 60) =
             Some (- 18000)"
    by (simp add: new_york_def calendar_defs datetime_in_range_def)
  have g: "datetime_in_range (ymd2ord 2024 2 15 * 86400 + 9 * 3600 + 0 * 60 - (- 18000))"
    by (simp add: calendar_defs datetime_in_range_def)
  show ?thesis
    by (rule time_conversion_round_trip[of "''09:00''" example_tzdb "''America/New_York''" new_york
          9 0 "ymd2ord 2024 2 15" "- 18000", OF a b c d e f g])
qed

text \<open>
  C5 as stated, for every date, fails at the end of the range of \<open>datetime\<close>: 20:00 on
  9999-12-31 in the zone \<open>Etc/GMT+5\<close>, which has no clock change, is 01:00 on the next day
  in UTC; \<open>astimezone\<close> raises \<open>OverflowError\<close> and the conversion raises \<open>ValueError\<close>,
  so there is no instant to convert back.
\<close>

theorem time_conversion_last_day_counterexample:
  "is_hhmm ''20:00'' \<and> is_date (ymd2ord 9999 12 31) \<and>
   example_tzdb ''Etc/GMT+5'' = Some gmt_plus_5 \<and>
   on_the_clock gmt_plus_5 (ymd2ord 9999 12 31 * 86400 + 20 * 3600 + 0 * 60) \<and>
   convert_to_utc example_tzdb ''20:00'' (ymd2ord 9999 12 31) ''Etc/GMT+5'' = Inl ValueError"
  by (simp add: convert_to_utc_def example_defs gmt_plus_5_def parse_defs calendar_defs Let_def
        datetime_in_range_def is_date_def on_the_clock_def is_hhmm_def hour_digits_def
        minute_digits_def)

text \<open>
  The hypothesis on the zone is needed: 02:30 on 2024-03-10 is skipped by the clocks of New
  York, and comes back as 03:30.
\<close>

lemma skipped_local_time_comes_back_later:
  "convert_to_utc example_tzdb ''02:30'' (ymd2ord 2024 3 10) ''America/New_York'' = Inr 63845739000 \<and>
   convert_from_utc example_tzdb 63845739000 ''America/New_York'' = Inr ''03:30''"
  by (simp add: convert_to_utc_def convert_from_utc_def example_defs parse_defs calendar_defs
        two_digits_def digit_char_def Let_def datetime_in_range_def)

text \<open>
  A time with a one-digit hour, which the input pattern admits, is not of the form HH:MM;
  it comes back with two digits.
\<close>

lemma one_digit_hour_comes_back_padded:
  "matches_time_pattern ''9:00'' \<and> \<not> is_hhmm ''9:00'' \<and>
   convert_to_utc example_tzdb ''9:00'' (ymd2ord 2024 2 15) ''UTC'' = Inr 63843670800 \<and>
   convert_from_utc example_tzdb 63843670800 ''UTC'' = Inr ''09:00''"
  by (simp add: convert_to_utc_def convert_from_utc_def example_defs parse_defs calendar_defs
        two_digits_def digit_char_def Let_def matches_time_pattern_def is_hhmm_def
        hour_digits_def minute_digits_def datetime_in_range_def)

section \<open>Properties of the conflict checker\<close>

lemmas store_defs = seed_slots_def seed_slot_def truthy_def get_appointment_slots_def
  check_slot_conflicts_def

lemma truthy_simps: "truthy None = False" "truthy (Some s) = (s \<noteq> [])"
  by (simp_all add: truthy_def)

lemma conflict_scan_iff:
  "conflict_scan x s e slots =
     (\<exists>slot\<in>set slots. \<not> (truthy x \<and> Some (s_id slot) = x) \<and>
        s < s_slot_end_time slot \<and> e > s_slot_start_time slot)"
  by (induction slots) auto

lemma conflict_scan_status:
  "conflict_scan x s e (map (\<lambda>slot. slot\<lparr>s_status := f slot\<rparr>) slots) = conflict_scan x s e slots"
  by (induction slots) auto

lemma filter_provider_status:
  "filter (\<lambda>slot. s_provider_id slot = p) (map (\<lambda>slot. slot\<lparr>s_status := f slot\<rparr>) slots) =
   map (\<lambda>slot. slot\<lparr>s_status := f slot\<rparr>) (filter (\<lambda>slot. s_provider_id slot = p) slots)"
  by (induction slots) auto

text \<open>
  C2, as amended. For a provider id that is not the empty string, an interval, and an
  excluded slot id that is absent or not the empty string, the conflict checker returns true
  exactly when some stored slot of that provider, other than the excluded one, satisfies
  \<open>s < slot_end\<close> and \<open>e > slot_start\<close>. The status of the stored slots is not consulted:
  rewriting every status leaves the answer unchanged.
\<close>

theorem conflict_checker_iff:
  assumes "p \<noteq> []" and "x \<noteq> Some []"
  shows "check_slot_conflicts slots p s e x =
           (\<exists>slot\<in>set slots. s_provider_id slot = p \<and> Some (s_id slot) \<noteq> x \<and>
              s < s_slot_end_time slot \<and> e > s_slot_start_time slot) \<and>
         check_slot_conflicts (map (\<lambda>slot. slot\<lparr>s_status := f slot\<rparr>) slots) p s e x =
           check_slot_conflicts slots p s e x"
proof -
  have t: "truthy (Some p)" "\<not> truthy None" using assms(1) by (simp_all add: truthy_def)
  have ex: "(truthy x \<and> Some i = x) = (Some i = x)" for i
    using assms(2) by (cases x) (auto simp: truthy_def)
  have "check_slot_conflicts slots p s e x =
           (\<exists>slot\<in>set slots. s_provider_id slot = p \<and> Some (s_id slot) \<noteq> x \<and>
              s < s_slot_end_time slot \<and> e > s_slot_start_time slot)"
    by (auto simp: check_slot_conflicts_def get_appointment_slots_def t conflict_scan_iff ex)
  moreover
  have "check_slot_conflicts (map (\<lambda>slot. slot\<lparr>s_status := f slot\<rparr>) slots) p s e x =
           check_slot_conflicts slots p s e x"
    by (simp add: check_slot_conflicts_def get_appointment_slots_def t
          filter_provider_status conflict_scan_status)
  ultimately show ?thesis by blast
qed

theorem conflict_checker_iff_witness:
  "check_slot_conflicts seed_slots ''provider-123'' 63843689700 63843691500 None =
     (\<exists>slot\<in>set seed_slots. s_provider_id slot = ''provider-123'' \<and> Some (s_id slot) \<noteq> None \<and>
        63843689700 < s_slot_end_time slot \<and> 63843691500 > s_slot_start_time slot) \<and>
   check_slot_conflicts (map (\<lambda>slot. slot\<lparr>s_status := ''cancelled''\<rparr>) seed_slots)
     ''provider-123'' 63843689700 63843691500 None =
     check_slot_conflicts seed_slots ''provider-123'' 63843689700 63843691500 None \<and>
   check_slot_conflicts seed_slots ''provider-123'' 63843689700 63843691500 None = True"
proof -
  have a: "''provider-123'' \<noteq> []" and b: "None \<noteq> Some []" by simp_all
  have c: "check_slot_conflicts seed_slots ''provider-123'' 63843689700 63843691500 None = True"
    by (simp add: store_defs calendar_defs)
  show ?thesis
    using conflict_checker_iff[OF a b, of seed_slots 63843689700 63843691500
             "\<lambda>slot. ''cancelled''"] c
    by simp
qed

text \<open>
  C2 as stated fails for the empty provider id, which the store takes for an absent
  argument: all stored slots are scanned, so a slot of another provider conflicts although
  the provider has no slot. The same holds for the excluded id: the empty string excludes
  nothing.
\<close>

theorem conflict_checker_empty_provider_counterexample:
  "check_slot_conflicts seed_slots [] 63843689700 63843691500 None = True \<and>
   filter (\<lambda>slot. s_provider_id slot = []) seed_slots = []"
  by (simp add: store_defs calendar_defs)

section \<open>Properties of delete and update\<close>

lemma find_filter_Cons:
  "find P xs = Some x \<Longrightarrow> \<exists>rest. filter P xs = x # rest"
  by (induction xs) (auto split: if_splits)

lemma find_Some_member:
  "find P xs = Some x \<Longrightarrow> x \<in> set xs \<and> P x"
  by (induction xs) (auto split: if_splits)

text \<open>
  C6. The identifiers of the stored slots are those of the two seed slots and the values of
  \<open>uuid.uuid4()\<close>; none is the empty string. In such a store, for every slot id whose
  stored slot (the first one with that id) has status booked, \<open>delete_availability_slot\<close>
  fails with the invalid-state response, whatever the cascade flag, and the store is
  unchanged.
\<close>

theorem delete_booked_slot_fails:
  assumes "\<forall>stored \<in> set slots. s_id stored \<noteq> []"
      and "find (\<lambda>slot. s_id slot = slot_id) slots = Some slot"
      and "s_status slot = ''booked''"
  shows "delete_availability_slot slots slot_id delete_recurring =
           (Failure ''Cannot delete booked slot'' 400, slots)"
proof -
  from find_Some_member[OF assms(2)] assms(1) have ne: "slot_id \<noteq> []" by auto
  from find_filter_Cons[OF assms(2)] obtain rest where
    "filter (\<lambda>slot. s_id slot = slot_id) slots = slot # rest" by blast
  then have "get_appointment_slots slots None None (Some slot_id) = slot # rest"
    using ne by (simp add: get_appointment_slots_def truthy_def)
  then show ?thesis using assms(3) by (simp add: delete_availability_slot_def)
qed

theorem delete_booked_slot_fails_witness:
  "delete_availability_slot
     [seed_slot ''slot-123'' 100 200, (seed_slot ''slot-124'' 200 300)\<lparr>s_status := ''booked''\<rparr>]
     ''slot-124'' True =
   (Failure ''Cannot delete booked slot'' 400,
     [seed_slot ''slot-123'' 100 200, (seed_slot ''slot-124'' 200 300)\<lparr>s_status := ''booked''\<rparr>])"
proof -
  have a: "\<forall>stored \<in> set [seed_slot ''slot-123'' 100 200,
              (seed_slot ''slot-124'' 200 300)\<lparr>s_status := ''booked''\<rparr>]. s_id stored \<noteq> []"
    by (simp add: seed_slot_def)
  have b: "find (\<lambda>slot. s_id slot = ''slot-124'')
             [seed_slot ''slot-123'' 100 200,
              (seed_slot ''slot-124'' 200 300)\<lparr>s_status := ''booked''\<rparr>] =
           Some ((seed_slot ''slot-124'' 200 300)\<lparr>s_status := ''booked''\<rparr>)"
    by (simp add: seed_slot_def)
  have c: "s_status ((seed_slot ''slot-124'' 200 300)\<lparr>s_status := ''booked''\<rparr>) = ''booked''"
    by simp
  show ?thesis by (rule delete_booked_slot_fails[OF a b c])
qed

lemma update_appointment_slot_found:
  "update_appointment_slot slots slot_id u = (slots', True) \<Longrightarrow>
     \<exists>pre slot post. slots = pre @ slot # post \<and> (\<forall>s\<in>set pre. s_id s \<noteq> slot_id) \<and>
        s_id slot = slot_id \<and> slots' = pre @ apply_updates slot u # post"
proof (induction slots arbitrary: slots')
  case Nil
  then show ?case by simp
next
  case (Cons a slots)
  show ?case
  proof (cases "s_id a = slot_id")
    case True
    with Cons.prems have "slots' = apply_updates a u # slots" by simp
    with True show ?thesis by (intro exI[of _ "[]"] exI[of _ a] exI[of _ slots]) simp
  next
    case False
    with Cons.prems obtain rest' where
      r: "update_appointment_slot slots slot_id u = (rest', True)" "slots' = a # rest'"
      by (auto split: prod.splits)
    from Cons.IH[OF r(1)] obtain pre slot post where
      p: "slots = pre @ slot # post" "\<forall>s\<in>set pre. s_id s \<noteq> slot_id" "s_id slot = slot_id"
         "rest' = pre @ apply_updates slot u # post" by blast
    show ?thesis
      using p r(2) False
      by (intro exI[of _ "a # pre"] exI[of _ slot] exI[of _ post]) simp
  qed
qed

lemma update_appointment_slot_exists:
  "\<exists>slot\<in>set slots. s_id slot = slot_id \<Longrightarrow>
     snd (update_appointment_slot slots slot_id u) = True"
proof (induction slots)
  case Nil
  then show ?case by simp
next
  case (Cons a slots)
  show ?case
  proof (cases "s_id a = slot_id")
    case True
    then show ?thesis by simp
  next
    case False
    with Cons.prems have "\<exists>slot\<in>set slots. s_id slot = slot_id" by auto
    from Cons.IH[OF this] False show ?thesis by (auto split: prod.splits)
  qed
qed

lemma apply_make_update_data:
  "apply_updates slot (make_update_data e updates) =
     slot\<lparr> s_start_time :=
             (if truthy (upd_start_time updates) then upd_start_time updates else s_start_time slot),
           s_end_time :=
             (if truthy (upd_end_time updates) then upd_end_time updates else s_end_time slot),
           s_status :=
             (case upd_status updates of Some st \<Rightarrow> status_value st | None \<Rightarrow> s_status slot),
           s_notes := (if truthy (upd_notes updates) then upd_notes updates else s_notes slot),
           s_pricing := (case upd_pricing updates of Some p \<Rightarrow> Some p | None \<Rightarrow> s_pricing slot),
           s_special_requirements :=
             (case upd_special_requirements updates of
                Some (r # rs) \<Rightarrow> Some (r # rs) | _ \<Rightarrow> s_special_requirements slot),
           s_updated_at := Some (utcnow e) \<rparr>"
  by (simp add: apply_updates_def make_update_data_def or_keep_def nonempty_def truthy_def
        split: option.splits list.splits)

lemma get_by_id_none:
  "slot_id \<noteq> [] \<Longrightarrow> \<forall>slot\<in>set slots. s_id slot \<noteq> slot_id \<Longrightarrow>
     get_appointment_slots slots None None (Some slot_id) = []"
  by (simp add: get_appointment_slots_def truthy_def filter_empty_conv)

lemma get_by_id_some:
  "slot_id \<noteq> [] \<Longrightarrow> \<exists>slot\<in>set slots. s_id slot = slot_id \<Longrightarrow>
     \<exists>slot others. get_appointment_slots slots None None (Some slot_id) = slot # others"
  by (cases "filter (\<lambda>slot. s_id slot = slot_id) slots")
     (auto simp: get_appointment_slots_def truthy_def filter_empty_conv)

text \<open>
  C9, as amended. For a slot id that is not the empty string: when no stored slot has the id,
  \<open>update_availability_slot\<close> fails with the not-found response and the store is unchanged;
  when it succeeds, the first stored slot with the id is the only one changed, each field of
  the patch that is present and not empty (a status or a pricing that is present, a time, a
  note or a list of requirements that is present and not empty) is written to it, every other
  field keeps its value, and \<open>updated_at\<close> becomes the current time; and it does succeed when
  the slot exists and the patch gives no time.
\<close>

theorem update_slot_frame:
  assumes "slot_id \<noteq> []"
  shows "((\<forall>slot\<in>set slots. s_id slot \<noteq> slot_id) \<longrightarrow>
            update_availability_slot e slots slot_id updates = (Failure ''Slot not found'' 404, slots)) \<and>
         (\<forall>msg slots'. update_availability_slot e slots slot_id updates = (Success msg (), slots') \<longrightarrow>
            (\<exists>pre slot post. slots = pre @ slot # post \<and> (\<forall>s\<in>set pre. s_id s \<noteq> slot_id) \<and>
               s_id slot = slot_id \<and>
               slots' = pre @
                 slot\<lparr> s_start_time :=
                         (if truthy (upd_start_time updates) then upd_start_time updates
                          else s_start_time slot),
                       s_end_time :=
                         (if truthy (upd_end_time updates) then upd_end_time updates
                          else s_end_time slot),
                       s_status :=
                         (case upd_status updates of
                            Some st \<Rightarrow> status_value st | None \<Rightarrow> s_status slot),
                       s_notes :=
                         (if truthy (upd_notes updates) then upd_notes updates else s_notes slot),
                       s_pricing :=
                         (case upd_pricing updates of
                            Some p \<Rightarrow> Some p | None \<Rightarrow> s_pricing slot),
                       s_special_requirements :=
                         (case upd_special_requirements updates of
                            Some (r # rs) \<Rightarrow> Some (r # rs) | _ \<Rightarrow> s_special_requirements slot),
                       s_updated_at := Some (utcnow e) \<rparr> # post)) \<and>
         ((\<exists>slot\<in>set slots. s_id slot = slot_id) \<and> \<not> truthy (upd_start_time updates) \<and>
            \<not> truthy (upd_end_time updates) \<longrightarrow>
            (\<exists>slots'. update_availability_slot e slots slot_id updates =
               (Success ''Slot updated successfully'' (), slots')))"
proof (intro conjI allI impI)
  assume "\<forall>slot\<in>set slots. s_id slot \<noteq> slot_id"
  from get_by_id_none[OF assms this]
  show "update_availability_slot e slots slot_id updates = (Failure ''Slot not found'' 404, slots)"
    by (simp add: update_availability_slot_def)
next
  fix msg slots'
  assume ok: "update_availability_slot e slots slot_id updates = (Success msg (), slots')"
  then have "update_appointment_slot slots slot_id (make_update_data e updates) = (slots', True)"
    by (auto simp: update_availability_slot_def
          split: list.splits sum.splits bool.splits prod.splits if_splits)
  from update_appointment_slot_found[OF this] obtain pre slot post where
    p: "slots = pre @ slot # post" "\<forall>s\<in>set pre. s_id s \<noteq> slot_id" "s_id slot = slot_id"
       "slots' = pre @ apply_updates slot (make_update_data e updates) # post" by blast
  show "\<exists>pre slot post. slots = pre @ slot # post \<and> (\<forall>s\<in>set pre. s_id s \<noteq> slot_id) \<and>
               s_id slot = slot_id \<and>
               slots' = pre @
                 slot\<lparr> s_start_time :=
                         (if truthy (upd_start_time updates) then upd_start_time updates
                          else s_start_time slot),
                       s_end_time :=
                         (if truthy (upd_end_time updates) then upd_end_time updates
                          else s_end_time slot),
                       s_status :=
                         (case upd_status updates of
                            Some st \<Rightarrow> status_value st | None \<Rightarrow> s_status slot),
                       s_notes :=
                         (if truthy (upd_notes updates) then upd_notes updates else s_notes slot),
                       s_pricing :=
                         (case upd_pricing updates of
                            Some p \<Rightarrow> Some p | None \<Rightarrow> s_pricing slot),
                       s_special_requirements :=
                         (case upd_special_requirements updates of
                            Some (r # rs) \<Rightarrow> Some (r # rs) | _ \<Rightarrow> s_special_requirements slot),
                       s_updated_at := Some (utcnow e) \<rparr> # post"
    using p unfolding apply_make_update_data by blast
next
  assume a: "(\<exists>slot\<in>set slots. s_id slot = slot_id) \<and> \<not> truthy (upd_start_time updates) \<and>
            \<not> truthy (upd_end_time updates)"
  then have ex: "\<exists>slot\<in>set slots. s_id slot = slot_id" by simp
  from get_by_id_some[OF assms ex] obtain slot others where
    g: "get_appointment_slots slots None None (Some slot_id) = slot # others" by blast
  have s: "snd (update_appointment_slot slots slot_id (make_update_data e updates)) = True"
    by (rule update_appointment_slot_exists[OF ex])
  show "\<exists>slots'. update_availability_slot e slots slot_id updates =
               (Success ''Slot updated successfully'' (), slots')"
    using a g s by (auto simp: update_availability_slot_def split: prod.splits)
qed

theorem update_slot_frame_witness:
  "\<exists>slots'. update_availability_slot example_env seed_slots ''slot-124'' status_notes_patch =
       (Success ''Slot updated successfully'' (), slots') \<and>
     (\<exists>pre slot post. seed_slots = pre @ slot # post \<and> s_id slot = ''slot-124'' \<and>
        slots' = pre @ slot\<lparr> s_status := ''booked'', s_notes := Some ''moved'',
                              s_updated_at := Some (utcnow example_env) \<rparr> # post)"
proof -
  have n: "''slot-124'' \<noteq> []" by simp
  note th = update_slot_frame[OF n, of seed_slots example_env status_notes_patch]
  have "(\<exists>slot\<in>set seed_slots. s_id slot = ''slot-124'') \<and>
          \<not> truthy (upd_start_time status_notes_patch) \<and>
          \<not> truthy (upd_end_time status_notes_patch)"
    by (simp add: seed_slots_def seed_slot_def status_notes_patch_def truthy_def)
  with th obtain slots' where
    ok: "update_availability_slot example_env seed_slots ''slot-124'' status_notes_patch =
           (Success ''Slot updated successfully'' (), slots')" by blast
  with th obtain pre slot post where
    p: "seed_slots = pre @ slot # post" "s_id slot = ''slot-124''"
       "slots' = pre @
          slot\<lparr> s_start_time :=
                  (if truthy (upd_start_time status_notes_patch)
                   then upd_start_time status_notes_patch else s_start_time slot),
                s_end_time :=
                  (if truthy (upd_end_time status_notes_patch)
                   then upd_end_time status_notes_patch else s_end_time slot),
                s_status :=
                  (case upd_status status_notes_patch of
                     Some st \<Rightarrow> status_value st | None \<Rightarrow> s_status slot),
                s_notes :=
                  (if truthy (upd_notes status_notes_patch)
                   then upd_notes status_notes_patch else s_notes slot),
                s_pricing :=
                  (case upd_pricing status_notes_patch of
                     Some p \<Rightarrow> Some p | None \<Rightarrow> s_pricing slot),
                s_special_requirements :=
                  (case upd_special_requirements status_notes_patch of
                     Some (r # rs) \<Rightarrow> Some (r # rs) | _ \<Rightarrow> s_special_requirements slot),
                s_updated_at := Some (utcnow example_env) \<rparr> # post"
    by blast
  have "slots' = pre @ slot\<lparr> s_status := ''booked'', s_notes := Some ''moved'',
                              s_updated_at := Some (utcnow example_env) \<rparr> # post"
    using p(3) by (simp add: status_notes_patch_def truthy_def)
  with ok p(1,2) show ?thesis by blast
qed

text \<open>
  C9 as stated fails in two ways. A patch whose notes are present and empty is accepted, and
  the notes of the slot stay as they were. And for the empty slot id, which the store takes
  for an absent argument, the lookup returns all slots, so that the operation does not
  answer not found but fails later, when the store finds no slot to update.
\<close>

theorem update_slot_counterexample:
  "update_availability_slot example_env
     [(seed_slot ''slot-123'' 100 200)\<lparr>s_notes := Some ''bring card''\<rparr>] ''slot-123''
     empty_notes_patch =
     (Success ''Slot updated successfully'' (),
      [(seed_slot ''slot-123'' 100 200)
         \<lparr>s_notes := Some ''bring card'', s_updated_at := Some (utcnow example_env)\<rparr>]) \<and>
   update_availability_slot example_env [seed_slot ''slot-123'' 100 200] [] empty_notes_patch =
     (Failure ''Failed to update slot'' 500, [seed_slot ''slot-123'' 100 200])"
  by (simp add: update_availability_slot_def get_appointment_slots_def truthy_def seed_slot_def
        empty_notes_patch_def make_update_data_def apply_updates_def or_keep_def nonempty_def)

section \<open>Properties of create\<close>

lemmas request_defs = example_request_def overlapping_request_def one_digit_request_def
  empty_state_def ProviderAvailabilityCreate.truncate_def

text \<open>
  C7. The pattern of the time fields admits an hour of one digit, and the validation compares
  the strings: for the start 9:00 and the end 10:00, both accepted by the pattern, the end is
  later than the start, the validator of the request raises, and the service answers that the
  end time must be after the start time.
\<close>

theorem one_digit_hour_window_rejected:
  "matches_time_pattern ''9:00'' \<and> matches_time_pattern ''10:00'' \<and>
   parse_time ''9:00'' = Some (9, 0) \<and> parse_time ''10:00'' = Some (10, 0) \<and>
   validate_end_time ''10:00'' ''9:00'' = Inl ValueError \<and>
   create_provider_availability example_env empty_state one_digit_request =
     Some (Failure ''End time must be after start time'' 400, empty_state)"
  by (simp add: matches_time_pattern_def hour_digits_def minute_digits_def parse_defs
        validate_end_time_def create_provider_availability_def request_defs example_defs
        less_eq_char_def less_char_def)

lemma parse_time_digits:
  assumes h: "hour_digits a b" and m: "minute_digits c d"
  shows "parse_time [a, b, CHR '':'', c, d] =
           Some (int (10 * digit_val a + digit_val b), int (10 * digit_val c + digit_val d))"
proof -
  note hf = hour_digits_facts[OF h] and mf = minute_digits_facts[OF m]
  show ?thesis
    using hf(3) mf(3)
    unfolding parse_time_def split_colon_hhmm[OF hf(1,2) mf(1,2)]
    by (simp add: py_int_two_digits[OF hf(1,2)] py_int_two_digits[OF mf(1,2)])
qed

lemma digit_less_iff:
  assumes "is_digit a" "is_digit b"
  shows "(a < b) = (digit_val a < digit_val b)" "(a = b) = (digit_val a = digit_val b)"
proof -
  show "(a < b) = (digit_val a < digit_val b)"
    using digit_facts(8)[OF assms(1)] digit_facts(8)[OF assms(2)] by (simp add: less_char_def)
  show "(a = b) = (digit_val a = digit_val b)"
    using digit_facts(7)[OF assms(1)] digit_facts(7)[OF assms(2)] by metis
qed

text \<open>
  On strings of the fixed-width form HH:MM the comparison of the strings is the comparison of
  the times of day.
\<close>

lemma hhmm_order_is_time_order:
  assumes "is_hhmm s" and "is_hhmm t"
      and "parse_time s = Some (h1, m1)" and "parse_time t = Some (h2, m2)"
  shows "(s < t) = (h1 * 60 + m1 < h2 * 60 + m2)"
proof -
  from assms(1) obtain a b c d where s: "s = [a, b, CHR '':'', c, d]"
    and sh: "hour_digits a b" and sm: "minute_digits c d" by (rule is_hhmm_cases)
  from assms(2) obtain a' b' c' d' where t: "t = [a', b', CHR '':'', c', d']"
    and th: "hour_digits a' b'" and tm: "minute_digits c' d'" by (rule is_hhmm_cases)
  note f = hour_digits_facts[OF sh] minute_digits_facts[OF sm]
           hour_digits_facts[OF th] minute_digits_facts[OF tm]
  have v1: "h1 = int (10 * digit_val a + digit_val b)" "m1 = int (10 * digit_val c + digit_val d)"
    using assms(3) parse_time_digits[OF sh sm] by (simp_all add: s)
  have v2: "h2 = int (10 * digit_val a' + digit_val b')" "m2 = int (10 * digit_val c' + digit_val d')"
    using assms(4) parse_time_digits[OF th tm] by (simp_all add: t)
  have b: "digit_val b < 10" "digit_val d < 10" "digit_val b' < 10" "digit_val d' < 10"
    using f digit_facts(6) by blast+
  have "(s < t) =
          (digit_val a < digit_val a' \<or> digit_val a = digit_val a' \<and>
            (digit_val b < digit_val b' \<or> digit_val b = digit_val b' \<and>
              (digit_val c < digit_val c' \<or> digit_val c = digit_val c' \<and>
                 digit_val d < digit_val d')))"
    unfolding s t
    by (simp add: digit_less_iff[OF f(1) f(7)] digit_less_iff[OF f(2) f(8)]
          digit_less_iff[OF f(4) f(10)] digit_less_iff[OF f(5) f(11)])
  also have "\<dots> = (h1 * 60 + m1 < h2 * 60 + m2)"
    unfolding v1 v2 using b f(6) f(12) by auto
  finally show ?thesis .
qed

section \<open>Properties of the recurrence expander\<close>

lemma availability_db_fields:
  "provider_id (availability_db e n w d) = provider_id w"
  "date (availability_db e n w d) = d"
  "start_time (availability_db e n w d) = start_time w"
  "end_time (availability_db e n w d) = end_time w"
  "timezone (availability_db e n w d) = timezone w"
  "slot_duration (availability_db e n w d) = slot_duration w"
  "break_duration (availability_db e n w d) = break_duration w"
  "max_appointments_per_slot (availability_db e n w d) = max_appointments_per_slot w"
  "db_id (availability_db e n w d) = uuid4 e n"
  "ProviderAvailabilityCreate.truncate (availability_db e n w d) =
     w \<lparr> date := d,
         special_requirements :=
           Some (case special_requirements w of None \<Rightarrow> [] | Some l \<Rightarrow> l) \<rparr>"
  by (simp_all add: availability_db_def ProviderAvailabilityCreate.defs ProviderAvailabilityDB.defs)

lemma rrule_dates_sorted: "sorted_wrt (<) (rrule_dates freq start until)"
proof -
  have "sorted_wrt (<) [start..until]" by (rule sorted_wrt_upto)
  then show ?thesis unfolding rrule_dates_def by (rule sorted_wrt_filter)
qed

lemma rrule_dates_set:
  "set (rrule_dates freq start until) = {d. start \<le> d \<and> d \<le> until \<and> at_frequency freq start d}"
  by (auto simp: rrule_dates_def)

lemma generate_slots_returns:
  assumes "convert_to_utc (tz_database e) (start_time av) (date av) (timezone av) = Inr s"
      and "convert_to_utc (tz_database e) (end_time av) (date av) (timezone av) = Inr t"
      and "0 < slot_duration av" and "0 \<le> break_duration av"
      and "datetime_in_range (t + 60 * (slot_duration av + break_duration av))"
  shows "\<exists>slots. generate_slots_from_availability e n av = Return slots"
  using slot_loop_returns[OF assms(3,4) convert_to_utc_in_range[OF assms(1)] assms(5)]
  unfolding generate_slots_eq[OF assms(1,2)] .

lemma recurring_loop_Return:
  "recurring_loop e w n dates = Return results \<Longrightarrow>
     map (\<lambda>(a, slots). date a) results = dates \<and>
     (\<forall>(a, slots)\<in>set results.
        \<exists>k. a = availability_db e k w (date a) \<and>
            generate_slots_from_availability e (Suc k) a = Return slots)"
proof (induction dates arbitrary: n results)
  case Nil
  then show ?case by simp
next
  case (Cons d dates)
  let ?a = "availability_db e n w d"
  from Cons.prems obtain slots rest where
    g: "generate_slots_from_availability e (Suc n) ?a = Return slots" and
    r: "recurring_loop e w (Suc n + length slots) dates = Return rest" and
    res: "results = (?a, slots) # rest"
    by (auto split: outcome.splits)
  have "\<exists>k. ?a = availability_db e k w (date ?a) \<and>
            generate_slots_from_availability e (Suc k) ?a = Return slots"
    using g by (intro exI[of _ n]) (simp add: availability_db_fields)
  with Cons.IH[OF r] res show ?case by (simp add: availability_db_fields)
qed

lemma recurring_loop_returns:
  assumes "0 < slot_duration w" and "0 \<le> break_duration w"
      and "\<forall>d\<in>set dates. \<exists>s t.
             convert_to_utc (tz_database e) (start_time w) d (timezone w) = Inr s \<and>
             convert_to_utc (tz_database e) (end_time w) d (timezone w) = Inr t \<and>
             datetime_in_range (t + 60 * (slot_duration w + break_duration w))"
  shows "\<exists>results. recurring_loop e w n dates = Return results"
  using assms(3)
proof (induction dates arbitrary: n)
  case Nil
  then show ?case by simp
next
  case (Cons d dates)
  let ?a = "availability_db e n w d"
  from Cons.prems obtain s t where
    c: "convert_to_utc (tz_database e) (start_time w) d (timezone w) = Inr s"
       "convert_to_utc (tz_database e) (end_time w) d (timezone w) = Inr t"
       "datetime_in_range (t + 60 * (slot_duration w + break_duration w))"
    by auto
  have "\<exists>slots. generate_slots_from_availability e (Suc n) ?a = Return slots"
    using c assms(1,2)
    by (intro generate_slots_returns[where s = s and t = t]) (simp_all add: availability_db_fields)
  then obtain slots where g: "generate_slots_from_availability e (Suc n) ?a = Return slots"
    by blast
  from Cons.prems have "\<forall>d\<in>set dates. \<exists>s t.
             convert_to_utc (tz_database e) (start_time w) d (timezone w) = Inr s \<and>
             convert_to_utc (tz_database e) (end_time w) d (timezone w) = Inr t \<and>
             datetime_in_range (t + 60 * (slot_duration w + break_duration w))"
    by simp
  from Cons.IH[OF this, of "Suc n + length slots"] obtain rest where
    "recurring_loop e w (Suc n + length slots) dates = Return rest" by blast
  with g show ?case by simp
qed

text \<open>
  C4. For a recurring window with a pattern and an end date: whenever the expander returns,
  it returns one pair for each date of the recurrence rule, in the rule's order; the window
  of a pair is the request with that date put in, and its slots are what the slot generator
  returns for that window. The dates of the rule are in strictly increasing order and are
  the dates from the start date up to and including the end date at the chosen frequency.
  The expander does return when the slot duration is positive, the break is not negative,
  and on every date of the rule the two times convert and one slot and one break after the
  end is still a \<open>datetime\<close>. Every week from 2024-02-15 until 2024-03-01 is 2024-02-15,
  2024-02-22 and 2024-02-29.
\<close>

theorem recurrence_expander:
  assumes "is_recurring w" and "recurrence_pattern w = Some freq"
      and "recurrence_end_date w = Some until"
  shows "(\<forall>results. generate_recurring_slots e n w = Return results \<longrightarrow>
            map (\<lambda>(a, slots). date a) results = rrule_dates freq (date w) until \<and>
            (\<forall>(a, slots)\<in>set results.
               \<exists>k. a = availability_db e k w (date a) \<and>
                   generate_slots_from_availability e (Suc k) a = Return slots)) \<and>
         sorted_wrt (<) (rrule_dates freq (date w) until) \<and>
         set (rrule_dates freq (date w) until) =
           {d. date w \<le> d \<and> d \<le> until \<and> at_frequency freq (date w) d} \<and>
         (0 < slot_duration w \<and> 0 \<le> break_duration w \<and>
          (\<forall>d\<in>set (rrule_dates freq (date w) until). \<exists>s t.
             convert_to_utc (tz_database e) (start_time w) d (timezone w) = Inr s \<and>
             convert_to_utc (tz_database e) (end_time w) d (timezone w) = Inr t \<and>
             datetime_in_range (t + 60 * (slot_duration w + break_duration w))) \<longrightarrow>
          (\<exists>results. generate_recurring_slots e n w = Return results)) \<and>
         rrule_dates WEEKLY (ymd2ord 2024 2 15) (ymd2ord 2024 3 1) =
           [ymd2ord 2024 2 15, ymd2ord 2024 2 22, ymd2ord 2024 2 29]"
proof -
  have g: "generate_recurring_slots e n w = recurring_loop e w n (rrule_dates freq (date w) until)"
    using assms by (simp add: generate_recurring_slots_def)
  have a: "map (\<lambda>(a, slots). date a) results = rrule_dates freq (date w) until \<and>
            (\<forall>(a, slots)\<in>set results.
               \<exists>k. a = availability_db e k w (date a) \<and>
                   generate_slots_from_availability e (Suc k) a = Return slots)"
    if "generate_recurring_slots e n w = Return results" for results
    using that unfolding g by (rule recurring_loop_Return)
  have b: "\<exists>results. generate_recurring_slots e n w = Return results"
    if "0 < slot_duration w \<and> 0 \<le> break_duration w \<and>
          (\<forall>d\<in>set (rrule_dates freq (date w) until). \<exists>s t.
             convert_to_utc (tz_database e) (start_time w) d (timezone w) = Inr s \<and>
             convert_to_utc (tz_database e) (end_time w) d (timezone w) = Inr t \<and>
             datetime_in_range (t + 60 * (slot_duration w + break_duration w)))"
    unfolding g using that by (intro recurring_loop_returns) simp_all
  have c: "rrule_dates WEEKLY (ymd2ord 2024 2 15) (ymd2ord 2024 3 1) =
           [ymd2ord 2024 2 15, ymd2ord 2024 2 22, ymd2ord 2024 2 29]"
    by (simp add: rrule_dates_def calendar_defs upto_rec_numeral)
  from a b c rrule_dates_sorted[of freq "date w" until] rrule_dates_set[of freq "date w" until]
  show ?thesis by blast
qed

lemma weekly_request_fields:
  "is_recurring weekly_request" "recurrence_pattern weekly_request = Some WEEKLY"
  "recurrence_end_date weekly_request = Some (ymd2ord 2024 3 1)"
  "date weekly_request = ymd2ord 2024 2 15"
  "start_time weekly_request = ''09:00''" "end_time weekly_request = ''11:00''"
  "timezone weekly_request = ''America/New_York''"
  "slot_duration weekly_request = 30" "break_duration weekly_request = 0"
  by (simp_all add: weekly_request_def example_request_def example_window_def
        ProviderAvailabilityCreate.defs)

theorem recurrence_expander_witness:
  "\<exists>results. generate_recurring_slots example_env 0 weekly_request = Return results \<and>
     map (\<lambda>(a, slots). date a) results =
       [ymd2ord 2024 2 15, ymd2ord 2024 2 22, ymd2ord 2024 2 29]"
proof -
  note f = weekly_request_fields
  have dates: "rrule_dates WEEKLY (ymd2ord 2024 2 15) (ymd2ord 2024 3 1) =
                 [ymd2ord 2024 2 15, ymd2ord 2024 2 22, ymd2ord 2024 2 29]"
    by (simp add: rrule_dates_def calendar_defs upto_rec_numeral)
  have conv: "\<forall>d\<in>set (rrule_dates WEEKLY (date weekly_request) (ymd2ord 2024 3 1)). \<exists>s t.
             convert_to_utc (tz_database example_env) (start_time weekly_request) d
               (timezone weekly_request) = Inr s \<and>
             convert_to_utc (tz_database example_env) (end_time weekly_request) d
               (timezone weekly_request) = Inr t \<and>
             datetime_in_range
               (t + 60 * (slot_duration weekly_request + break_duration weekly_request))"
    unfolding f dates
    by (simp add: convert_to_utc_def example_defs parse_defs calendar_defs datetime_in_range_def)
  have d: "0 < slot_duration weekly_request" "0 \<le> break_duration weekly_request"
    unfolding f by simp_all
  from recurrence_expander[OF f(1,2,3), of example_env 0] conv d
  show ?thesis unfolding f(4) dates by blast
qed

section \<open>Create and the conflict check\<close>













section \<open>Properties of search\<close>













end
